theory Spec2Isabelle
  imports Main "HOL-Library.Word"
begin

section \<open>Errors and small string helpers\<close>

text \<open>
  A JavaScript \<open>Error\<close> is modelled by its message. Every \<open>throw\<close> of the source is an
  \<open>Inl\<close> result of the model; a rejected promise is an \<open>Inl\<close> result as well.
\<close>

datatype error = Error string

fun message :: "error \<Rightarrow> string" where
  "message (Error m) = m"

definition digit_char :: "nat \<Rightarrow> char" where
  "digit_char d = ''0123456789'' ! (d mod 10)"

text \<open>Decimal rendering of a natural number, as template literals render a number.\<close>

fun decimal :: "nat \<Rightarrow> string" where
  "decimal n = (if n < 10 then [digit_char n] else decimal (n div 10) @ [digit_char n])"

declare decimal.simps [simp del]

text \<open>\<open>Number.prototype.toString\<close> on an integer: a minus sign, then the digits.\<close>

definition int_toString :: "int \<Rightarrow> string" where
  "int_toString i = (if i < 0 then CHR ''-'' # decimal (nat (- i)) else decimal (nat i))"

text \<open>
  Truthiness of an optional string: \<open>undefined\<close>, \<open>null\<close> and the empty string are falsy.
\<close>

fun truthy :: "'a list option \<Rightarrow> bool" where
  "truthy None = False"
| "truthy (Some s) = (s \<noteq> [])"

section \<open>Validation patterns and constants (src/types/aws.ts)\<close>

definition is_digit :: "char \<Rightarrow> bool" where
  "is_digit c \<longleftrightarrow> c \<in> set ''0123456789''"

definition is_alnum :: "char \<Rightarrow> bool" where
  "is_alnum c \<longleftrightarrow>
     c \<in> set ''abcdefghijklmnopqrstuvwxyz'' \<or> c \<in> set ''ABCDEFGHIJKLMNOPQRSTUVWXYZ'' \<or> is_digit c"

text \<open>The regular-expression class \<open>\w\<close>: letters, digits and the underscore.\<close>

definition word_char :: "char \<Rightarrow> bool" where
  "word_char c \<longleftrightarrow> is_alnum c \<or> c = CHR ''_''"

text \<open>The class \<open>[\w+=,.@-]\<close> shared by both patterns.\<close>

definition name_char :: "char \<Rightarrow> bool" where
  "name_char c \<longleftrightarrow> word_char c \<or> c \<in> set ''+=,.@-''"

text \<open>\<open>AWS_SESSION_NAME_PATTERN = /^[\w+=,.@-]+$/\<close>, as \<open>.test(s)\<close>.\<close>

definition AWS_SESSION_NAME_PATTERN :: "string \<Rightarrow> bool" where
  "AWS_SESSION_NAME_PATTERN s \<longleftrightarrow> s \<noteq> [] \<and> list_all name_char s"

text \<open>
  \<open>AWS_ROLE_ARN_PATTERN = /^arn:aws:iam::\d{12}:role\/[\w+=,.@-]+$/\<close>, as \<open>.test(s)\<close>:
  the literal prefix (13 characters), twelve digits, the literal \<open>:role/\<close> and a non-empty
  name over the class above, up to the end of the string.
\<close>

definition AWS_ROLE_ARN_PATTERN :: "string \<Rightarrow> bool" where
  "AWS_ROLE_ARN_PATTERN s \<longleftrightarrow>
     take 13 s = ''arn:aws:iam::'' \<and>
     length (take 12 (drop 13 s)) = 12 \<and> list_all is_digit (take 12 (drop 13 s)) \<and>
     take 6 (drop 25 s) = '':role/'' \<and>
     drop 31 s \<noteq> [] \<and> list_all name_char (drop 31 s)"

definition MIN_DURATION_SECONDS :: int where "MIN_DURATION_SECONDS = 900"
definition MAX_DURATION_SECONDS :: int where "MAX_DURATION_SECONDS = 43200"
definition DEFAULT_DURATION_SECONDS :: int where "DEFAULT_DURATION_SECONDS = 3600"
definition MAX_ROLE_HISTORY :: int where "MAX_ROLE_HISTORY = 10"
definition SESSION_NAME_MAX_LENGTH :: nat where "SESSION_NAME_MAX_LENGTH = 64"

section \<open>Data model (src/types/auth.ts, src/types/aws.ts)\<close>

text \<open>
  Optional properties are \<open>option\<close> values. \<open>sub\<close> is declared required, but the code
  reads it with \<open>?.\<close>, so it is optional here too. \<open>authenticated\<close> and \<open>user_error\<close> are
  the two extra claims \<open>fetchUserInfo\<close> writes through the index signature.
\<close>

record UserInfo =
  sub :: "string option"
  email :: "string option"
  user_name :: "string option"
  preferred_username :: "string option"
  login :: "string option"
  authenticated :: "bool option"
  user_error :: "string option"

record TokenResponse =
  access_token :: "string option"
  refresh_token :: "string option"
  id_token :: "string option"
  token_type :: "string option"
  expires_in :: "int option"
  token_scope :: "string option"
  token_error :: "string option"
  error_description :: "string option"

record AuthSession =
  accessToken :: string
  refreshToken :: "string option"
  idToken :: "string option"
  tokenType :: string
  session_scope :: "string option"
  expiresAt :: int
  createdAt :: int
  user :: UserInfo

record OIDCConfiguration =
  issuer :: "string option"
  authorization_endpoint :: "string option"
  token_endpoint :: "string option"
  userinfo_endpoint :: "string option"
  end_session_endpoint :: "string option"
  scopes_supported :: "string list option"
  response_types_supported :: "string list option"
  code_challenge_methods_supported :: "string list option"

record OIDCEndpoints =
  authorizationEndpoint :: "string option"
  tokenEndpoint :: "string option"
  userinfoEndpoint :: "string option"
  endpoints_issuer :: "string option"
  endSessionEndpoint :: "string option"
  supportedScopes :: "string list"
  supportedResponseTypes :: "string list"
  supportedCodeChallengeMethods :: "string list"

text \<open>
  A cache entry as \<open>getCachedConfiguration\<close> destructures it from the parsed JSON, with
  no check of its structure: \<open>config\<close> is \<open>None\<close> when it is absent or falsy, and
  \<open>timestamp\<close> is \<open>None\<close> when it is absent or not a number, so that subtracting it
  gives \<open>NaN\<close>.
\<close>

record OIDCCacheEntry =
  config :: "OIDCConfiguration option"
  timestamp :: "int option"

record RoleArnHistoryItem =
  arn :: string
  role_name :: string
  accountId :: string
  lastUsed :: int
  useCount :: int

record RoleArnHistory =
  roles :: "RoleArnHistoryItem list"
  maxItems :: int

section \<open>The durable store\<close>

text \<open>
  \<open>localStorage\<close> holds one string per key. The program keeps JSON under three of its
  keys and reads it back with \<open>JSON.parse\<close>; the model holds, for each such key, what
  \<open>JSON.parse\<close> and the structure checks of the reader make of the stored string: the
  value written by the program, or \<open>Corrupt\<close> for a string that does not parse or lacks
  the structure. The cache keys are \<open>oidc-manifest-\<close> followed by \<open>btoa(authority)\<close>;
  the cache is a map from that base64 text to what the stored string parses to
  (\<open>Corrupt\<close> when \<open>JSON.parse\<close> or the destructuring throws).
  In the session manager, the orchestrator and the role history, reads and writes of the
  store are taken to succeed. In OIDC discovery a failing \<open>getItem\<close>, \<open>removeItem\<close> or
  \<open>setItem\<close> is part of the model, because the code swallows it there.
\<close>

datatype 'a json = Corrupt | Json 'a

record localStorage =
  auth_session :: "AuthSession json option"
  pkce_verifier :: "string option"
  oauth_state :: "string option"
  oidc_manifest :: "string \<Rightarrow> OIDCCacheEntry json option"
  aws_role_arn_history :: "RoleArnHistory json option"

definition empty_storage :: localStorage where
  "empty_storage = \<lparr> auth_session = None, pkce_verifier = None, oauth_state = None,
     oidc_manifest = (\<lambda>_. None), aws_role_arn_history = None \<rparr>"

section \<open>Role history store (src/services/roleArnStorage.ts)\<close>



definition isValidRoleArn :: "string \<Rightarrow> bool" where
  "isValidRoleArn a = AWS_ROLE_ARN_PATTERN a"






text \<open>
  \<open>getHistory\<close>: an absent key, a string that does not parse and a value without a
  \<open>roles\<close> array all give the empty history; otherwise the parsed value with \<open>maxItems\<close>
  overwritten by the service's own.
\<close>

definition getHistory :: "int \<Rightarrow> localStorage \<Rightarrow> RoleArnHistory" where
  "getHistory mx st =
     (case aws_role_arn_history st of
        None \<Rightarrow> \<lparr> roles = [], maxItems = mx \<rparr>
      | Some Corrupt \<Rightarrow> \<lparr> roles = [], maxItems = mx \<rparr>
      | Some (Json h) \<Rightarrow> h \<lparr> maxItems := mx \<rparr>)"

definition saveHistory :: "RoleArnHistory \<Rightarrow> localStorage \<Rightarrow> localStorage" where
  "saveHistory h st = st \<lparr> aws_role_arn_history := Some (Json h) \<rparr>"



text \<open>
  \<open>slice(0, n)\<close> on an array or a string: a negative end counts from the end of the list.
\<close>

definition slice0 :: "int \<Rightarrow> 'a list \<Rightarrow> 'a list" where
  "slice0 n xs = (if n < 0 then take (nat (int (length xs) + n)) xs else take (nat n) xs)"


text \<open>
  \<open>importHistory\<close> starts from \<open>JSON.parse(jsonData)\<close>. The model takes what the parse
  yields: a syntax error (with the engine's message), a value whose \<open>roles\<close> is missing or
  not an array, or the array of imported entries. An imported entry's \<open>arn\<close> may be absent.
\<close>

record ImportedRole =
  imported_arn :: "string option"
  imported_name :: string
  imported_accountId :: string
  imported_lastUsed :: int
  imported_useCount :: int

datatype imported_json =
    SyntaxError string
  | NoRolesArray
  | RolesArray "ImportedRole list"

definition js_string :: "string option \<Rightarrow> string" where
  "js_string v = (case v of None \<Rightarrow> ''undefined'' | Some s \<Rightarrow> s)"

definition imported_item :: "ImportedRole \<Rightarrow> RoleArnHistoryItem" where
  "imported_item r =
     \<lparr> arn = js_string (imported_arn r), role_name = imported_name r,
       accountId = imported_accountId r, lastUsed = imported_lastUsed r,
       useCount = imported_useCount r \<rparr>"

text \<open>The validation loop: the first entry that fails stops the import.\<close>

fun validate_roles :: "ImportedRole list \<Rightarrow> error + unit" where
  "validate_roles [] = Inr ()"
| "validate_roles (r # rs) =
     (if \<not> truthy (imported_arn r) \<or> \<not> isValidRoleArn (js_string (imported_arn r))
      then Inl (Error (''Invalid role ARN in import data: '' @ js_string (imported_arn r)))
      else validate_roles rs)"

text \<open>
  The merge loop: each current role whose ARN is not among the merged roles so far is
  pushed at the end.
\<close>

fun merge_current ::
  "RoleArnHistoryItem list \<Rightarrow> RoleArnHistoryItem list \<Rightarrow> RoleArnHistoryItem list" where
  "merge_current mergedRoles [] = mergedRoles"
| "merge_current mergedRoles (currentRole # rest) =
     merge_current
       (if list_ex (\<lambda>r. arn r = arn currentRole) mergedRoles then mergedRoles
        else mergedRoles @ [currentRole])
       rest"

text \<open>
  \<open>sort((a, b) => b.lastUsed - a.lastUsed)\<close>: a stable sort, latest use first.
\<close>

definition sort_lastUsed_desc :: "RoleArnHistoryItem list \<Rightarrow> RoleArnHistoryItem list" where
  "sort_lastUsed_desc rs = sort_key (\<lambda>r. - lastUsed r) rs"

definition importHistory ::
  "int \<Rightarrow> imported_json \<Rightarrow> localStorage \<Rightarrow> (error + unit) \<times> localStorage" where
  "importHistory mx imported st =
     (case imported of
        SyntaxError m \<Rightarrow> (Inl (Error (''Import failed: '' @ m)), st)
      | NoRolesArray \<Rightarrow>
          (Inl (Error (''Import failed: ''
                 @ ''Invalid history format: missing or invalid roles array'')), st)
      | RolesArray imported_roles \<Rightarrow>
          (case validate_roles imported_roles of
             Inl e \<Rightarrow> (Inl (Error (''Import failed: '' @ message e)), st)
           | Inr _ \<Rightarrow>
               let currentHistory = getHistory mx st;
                   mergedRoles =
                     merge_current (map imported_item imported_roles) (roles currentHistory);
                   finalHistory =
                     \<lparr> roles = slice0 mx (sort_lastUsed_desc mergedRoles), maxItems = mx \<rparr>
               in (Inr (), saveHistory finalHistory st)))"

section \<open>Session manager (the sessionManager module)\<close>

definition clearSession :: "localStorage \<Rightarrow> localStorage" where
  "clearSession st = st \<lparr> auth_session := None \<rparr>"

text \<open>
  \<open>storeSession\<close>: the first argument is the value of \<open>Date.now()\<close> used when the
  session carries no \<open>createdAt\<close> (a falsy number is \<open>0\<close>).
\<close>

definition storeSession ::
  "int \<Rightarrow> AuthSession \<Rightarrow> localStorage \<Rightarrow> (error + unit) \<times> localStorage" where
  "storeSession now session st =
     (if accessToken session = []
      then (Inl (Error (''Session storage failed: ''
                  @ ''Invalid session: access token is required'')), st)
      else
        let sessionData =
              session \<lparr> createdAt := (if createdAt session \<noteq> 0 then createdAt session else now) \<rparr>
        in (Inr (), st \<lparr> auth_session := Some (Json sessionData) \<rparr>))"

text \<open>
  \<open>getSession\<close>: a stored string that does not parse, or a parsed value without
  \<open>accessToken\<close> or \<open>expiresAt\<close>, clears the key and gives \<open>null\<close>.
\<close>

definition getSession :: "localStorage \<Rightarrow> AuthSession option \<times> localStorage" where
  "getSession st =
     (case auth_session st of
        None \<Rightarrow> (None, st)
      | Some Corrupt \<Rightarrow> (None, clearSession st)
      | Some (Json session) \<Rightarrow>
          if accessToken session = [] \<or> expiresAt session = 0
          then (None, clearSession st)
          else (Some session, st))"

definition isSessionValid :: "int \<Rightarrow> localStorage \<Rightarrow> bool \<times> localStorage" where
  "isSessionValid now st =
     (case getSession st of
        (None, st') \<Rightarrow> (False, st')
      | (Some session, st') \<Rightarrow>
          let isExpired = (now \<ge> expiresAt session)
          in if isExpired then (False, clearSession st') else (True, st'))"

definition storePKCEVerifier :: "string \<Rightarrow> localStorage \<Rightarrow> (error + unit) \<times> localStorage" where
  "storePKCEVerifier verifier st =
     (if verifier = [] then (Inl (Error ''PKCE verifier is required''), st)
      else (Inr (), st \<lparr> pkce_verifier := Some verifier \<rparr>))"

text \<open>
  \<open>retrievePKCEVerifier\<close> and \<open>retrieveOAuthState\<close> return what \<open>getItem\<close> gives and
  remove the key when the value is truthy.
\<close>

definition retrievePKCEVerifier :: "localStorage \<Rightarrow> string option \<times> localStorage" where
  "retrievePKCEVerifier st =
     (let verifier = pkce_verifier st
      in if truthy verifier then (verifier, st \<lparr> pkce_verifier := None \<rparr>) else (verifier, st))"

definition storeOAuthState :: "string \<Rightarrow> localStorage \<Rightarrow> (error + unit) \<times> localStorage" where
  "storeOAuthState state st =
     (if state = [] then (Inl (Error ''OAuth state is required''), st)
      else (Inr (), st \<lparr> oauth_state := Some state \<rparr>))"

definition retrieveOAuthState :: "localStorage \<Rightarrow> string option \<times> localStorage" where
  "retrieveOAuthState st =
     (let state = oauth_state st
      in if truthy state then (state, st \<lparr> oauth_state := None \<rparr>) else (state, st))"


section \<open>Strings of the platform\<close>

text \<open>
  A JavaScript string is a sequence of UTF-16 code units. Where the program's behaviour
  depends on characters beyond Latin-1 (the authority, which goes through \<open>btoa\<close>), the
  model uses the code units; elsewhere a \<open>string\<close>.
\<close>

type_synonym ustring = "nat list"

definition ustr :: "string \<Rightarrow> ustring" where
  "ustr s = map of_char s"

definition base64_alphabet :: string where
  "base64_alphabet =
     ''ABCDEFGHIJKLMNOPQRSTUVWXYZabcdefghijklmnopqrstuvwxyz0123456789+/''"

definition base64_char :: "nat \<Rightarrow> char" where
  "base64_char i = base64_alphabet ! i"

text \<open>
  Base64 with padding over byte values: three bytes give four characters, a rest of one
  or two bytes is padded with \<open>=\<close>.
\<close>

fun base64 :: "nat list \<Rightarrow> string" where
  "base64 [] = []"
| "base64 [a] = [base64_char (a div 4), base64_char ((a mod 4) * 16), CHR ''='', CHR ''='']"
| "base64 [a, b] =
     [base64_char (a div 4), base64_char ((a mod 4) * 16 + b div 16),
      base64_char ((b mod 16) * 4), CHR ''='']"
| "base64 (a # b # c # rest) =
     [base64_char (a div 4), base64_char ((a mod 4) * 16 + b div 16),
      base64_char ((b mod 16) * 4 + c div 64), base64_char (c mod 64)] @ base64 rest"

text \<open>
  \<open>btoa\<close> on a string: it throws (\<open>None\<close>) when a code unit is above 255, and is the
  base64 text of the code units otherwise.
\<close>

definition btoa :: "ustring \<Rightarrow> string option" where
  "btoa s = (if list_all (\<lambda>c. c < 256) s then Some (base64 s) else None)"

section \<open>The network\<close>

text \<open>
  Every network call of the program is an \<open>await\<close> of \<open>fetch\<close> or of the STS client. The
  model takes the reply as an argument and returns the list of calls issued, in order, so
  that "no call was made" is the empty list.

  A reply to \<open>fetch\<close>: the promise rejects (\<open>NetworkError\<close>, with the message), the
  response is not \<open>ok\<close> (\<open>HttpError\<close>: status, status text, body text), reading the body
  as a JSON object fails (\<open>BodyNotJson\<close>, with the message), or the body is the object.
\<close>

datatype 'a http =
    NetworkError string
  | HttpError nat string string
  | BodyNotJson string
  | Body 'a

text \<open>
  A call: a GET (URL, headers), a GET whose URL is built from the authority and is kept
  in code units, a POST (URL, headers, form body), or the STS operation.
\<close>

datatype net_call =
    HttpGet string "(string \<times> string) list"
  | HttpGetUnicode ustring "(string \<times> string) list"
  | HttpPost string "(string \<times> string) list" "(string \<times> string) list"
  | StsAssumeRoleWithWebIdentity string string string int

section \<open>OIDC discovery (src/services/oidcDiscovery.ts)\<close>

definition CACHE_DURATION :: int where
  "CACHE_DURATION = 24 * 60 * 60 * 1000"

text \<open>\<open>replace(/\/$/, '')\<close>: one slash (code unit 47) at the very end is removed.\<close>

definition strip_trailing_slash :: "ustring \<Rightarrow> ustring" where
  "strip_trailing_slash s = (if s \<noteq> [] \<and> last s = 47 then butlast s else s)"

text \<open>\<open>join(', ')\<close>.\<close>

fun join_comma :: "string list \<Rightarrow> string" where
  "join_comma [] = []"
| "join_comma [x] = x"
| "join_comma (x # y # ys) = x @ '', '' @ join_comma (y # ys)"

definition validateOIDCConfiguration :: "OIDCConfiguration \<Rightarrow> error + unit" where
  "validateOIDCConfiguration cfg =
     (let missingEndpoints =
            (if truthy (authorization_endpoint cfg) then [] else [''authorization_endpoint''])
            @ (if truthy (token_endpoint cfg) then [] else [''token_endpoint''])
      in if length missingEndpoints > 0
         then Inl (Error (''OIDC configuration missing required endpoints: ''
                    @ join_comma missingEndpoints))
         else Inr ())"

definition fetchOIDCConfiguration ::
  "ustring \<Rightarrow> OIDCConfiguration http \<Rightarrow> (error + OIDCConfiguration) \<times> net_call list" where
  "fetchOIDCConfiguration authority reply =
     (if authority = []
      then (Inl (Error ''OAuth authority is required for OIDC discovery''), [])
      else
        let cleanAuthority = strip_trailing_slash authority;
            discoveryUrl = cleanAuthority @ ustr ''/.well-known/openid-configuration'';
            calls = [HttpGetUnicode discoveryUrl [(''Accept'', ''application/json'')]];
            failed = (\<lambda>m. (Inl (Error (''OIDC discovery failed: '' @ m)), calls))
        in case reply of
             NetworkError m \<Rightarrow> failed m
           | HttpError status statusText body \<Rightarrow>
               failed (''Failed to fetch OIDC configuration: ''
                       @ decimal status @ '' '' @ statusText)
           | BodyNotJson m \<Rightarrow> failed m
           | Body cfg \<Rightarrow>
               (case validateOIDCConfiguration cfg of
                  Inl e \<Rightarrow> failed (message e)
                | Inr _ \<Rightarrow> (Inr cfg, calls)))"

text \<open>
  What one call of \<open>discoverOIDCEndpoints\<close> meets: the clock when the cache is read, the
  reply the discovery URL would give, the clock when the fetched configuration is
  cached, and whether \<open>localStorage.getItem\<close>, \<open>removeItem\<close> and \<open>setItem\<close> throw
  (storage disabled, quota exceeded).
\<close>

record discovery_env =
  now_read :: int
  discovery_reply :: "OIDCConfiguration http"
  now_cached :: int
  getItem_throws :: bool
  removeItem_throws :: bool
  setItem_throws :: bool

text \<open>
  \<open>now - timestamp > CACHE_DURATION\<close>: with a timestamp that is not a number the
  difference is \<open>NaN\<close> and the comparison is false.
\<close>

definition cache_expired :: "int \<Rightarrow> int option \<Rightarrow> bool" where
  "cache_expired now ts = (case ts of None \<Rightarrow> False | Some t \<Rightarrow> now - t > CACHE_DURATION)"

text \<open>
  \<open>getCachedConfiguration\<close>. Everything runs inside a \<open>try\<close> whose \<open>catch\<close> returns
  \<open>null\<close>: \<open>btoa(authority)\<close> throwing, \<open>getItem\<close> throwing, \<open>JSON.parse\<close> or the
  destructuring throwing, and \<open>removeItem\<close> throwing on an expired entry (which then
  stays). An absent key or an empty stored string gives \<open>null\<close>. An expired entry is
  removed and \<open>null\<close> is returned; any other entry gives its \<open>config\<close>, whatever it is.
\<close>

definition getCachedConfiguration ::
  "ustring \<Rightarrow> discovery_env \<Rightarrow> localStorage \<Rightarrow> OIDCConfiguration option \<times> localStorage" where
  "getCachedConfiguration authority env st =
     (case btoa authority of
        None \<Rightarrow> (None, st)
      | Some key \<Rightarrow>
          if getItem_throws env then (None, st)
          else
            (case oidc_manifest st key of
               None \<Rightarrow> (None, st)
             | Some Corrupt \<Rightarrow> (None, st)
             | Some (Json entry) \<Rightarrow>
                 if cache_expired (now_read env) (timestamp entry)
                 then (if removeItem_throws env then (None, st)
                       else (None, st \<lparr> oidc_manifest := (oidc_manifest st)(key := None) \<rparr>))
                 else (config entry, st)))"

text \<open>
  \<open>setCachedConfiguration\<close>: \<open>btoa\<close> or \<open>setItem\<close> throwing is caught and logged
  ("Non-fatal error, continue without caching"), and nothing is written.
\<close>

definition setCachedConfiguration ::
  "ustring \<Rightarrow> OIDCConfiguration \<Rightarrow> discovery_env \<Rightarrow> localStorage \<Rightarrow> localStorage" where
  "setCachedConfiguration authority cfg env st =
     (case btoa authority of
        None \<Rightarrow> st
      | Some key \<Rightarrow>
          if setItem_throws env then st
          else st \<lparr> oidc_manifest :=
                       (oidc_manifest st)
                         (key \<mapsto> Json \<lparr> config = Some cfg, timestamp = Some (now_cached env) \<rparr>) \<rparr>)"

definition or_empty :: "string list option \<Rightarrow> string list" where
  "or_empty v = (case v of None \<Rightarrow> [] | Some xs \<Rightarrow> xs)"

definition if_truthy :: "string option \<Rightarrow> string option" where
  "if_truthy v = (if truthy v then v else None)"

definition extract_endpoints :: "OIDCConfiguration \<Rightarrow> OIDCEndpoints" where
  "extract_endpoints cfg =
     \<lparr> authorizationEndpoint = authorization_endpoint cfg,
       tokenEndpoint = token_endpoint cfg,
       userinfoEndpoint = if_truthy (userinfo_endpoint cfg),
       endpoints_issuer = if_truthy (issuer cfg),
       endSessionEndpoint = if_truthy (end_session_endpoint cfg),
       supportedScopes = or_empty (scopes_supported cfg),
       supportedResponseTypes = or_empty (response_types_supported cfg),
       supportedCodeChallengeMethods = or_empty (code_challenge_methods_supported cfg) \<rparr>"

definition discoverOIDCEndpoints ::
  "ustring \<Rightarrow> discovery_env \<Rightarrow> localStorage
     \<Rightarrow> (error + OIDCEndpoints) \<times> localStorage \<times> net_call list" where
  "discoverOIDCEndpoints authority env st =
     (if authority = [] then (Inl (Error ''OAuth authority is required''), st, [])
      else
        case getCachedConfiguration authority env st of
          (Some cfg, st') \<Rightarrow> (Inr (extract_endpoints cfg), st', [])
        | (None, st') \<Rightarrow>
            (case fetchOIDCConfiguration authority (discovery_reply env) of
               (Inl e, calls) \<Rightarrow> (Inl e, st', calls)
             | (Inr cfg, calls) \<Rightarrow>
                 (Inr (extract_endpoints cfg),
                  setCachedConfiguration authority cfg env st', calls)))"

section \<open>OAuth2 flow orchestrator (the oauth2Service module)\<close>

text \<open>
  The fields of the service object; \<open>null\<close> is \<open>None\<close>.
\<close>

record OAuth2Service =
  authority :: "ustring option"
  clientId :: "string option"
  service_scope :: "string option"
  redirectUri :: "string option"
  endpoints :: "OIDCEndpoints option"
  initialized :: bool

definition new_OAuth2Service :: OAuth2Service where
  "new_OAuth2Service =
     \<lparr> authority = None, clientId = None, service_scope = None, redirectUri = None,
       endpoints = None, initialized = False \<rparr>"

record OAuthConfig =
  config_authority :: "ustring option"
  config_clientId :: "string option"
  config_scope :: "string option"
  config_redirectUri :: "string option"

text \<open>
  \<open>initialize\<close>: \<open>origin\<close> is \<open>window.location.origin\<close>. The fields are assigned before
  discovery runs, so a failed discovery leaves them set and \<open>initialized\<close> as it was.
\<close>

definition initialize ::
  "OAuth2Service \<Rightarrow> OAuthConfig \<Rightarrow> string \<Rightarrow> discovery_env \<Rightarrow> localStorage
     \<Rightarrow> (error + OIDCEndpoints) \<times> OAuth2Service \<times> localStorage \<times> net_call list" where
  "initialize svc cfg origin env st =
     (let required = (Inl (Error (''OAuth2 initialization failed: ''
                        @ ''OAuth2 configuration requires authority, clientId, and scope'')),
                      svc, st, [])
      in case config_authority cfg of
           None \<Rightarrow> required
         | Some a \<Rightarrow>
             if a = [] \<or> \<not> truthy (config_clientId cfg) \<or> \<not> truthy (config_scope cfg)
             then required
             else
               (let a' = strip_trailing_slash a;
                   svc1 = svc \<lparr> authority := Some a',
                                 clientId := config_clientId cfg,
                                 service_scope := config_scope cfg,
                                 redirectUri := (if truthy (config_redirectUri cfg)
                                                 then config_redirectUri cfg else Some origin) \<rparr>
               in case discoverOIDCEndpoints a' env st of
                    (Inl e, st', calls) \<Rightarrow>
                      (Inl (Error (''OAuth2 initialization failed: '' @ message e)),
                       svc1, st', calls)
                  | (Inr eps, st', calls) \<Rightarrow>
                      (Inr eps, svc1 \<lparr> endpoints := Some eps, initialized := True \<rparr>,
                       st', calls)))"

text \<open>A \<open>null\<close> field rendered into a string, as \<open>URLSearchParams.append\<close> does.\<close>

definition null_string :: "string option \<Rightarrow> string" where
  "null_string v = (case v of None \<Rightarrow> ''null'' | Some s \<Rightarrow> s)"

text \<open>\<open>a || b\<close> on optional strings.\<close>

definition or_else :: "string option \<Rightarrow> string option \<Rightarrow> string option" where
  "or_else a b = (if truthy a then a else b)"

text \<open>
  \<open>exchangeCodeForTokens\<close>. Reading \<open>this.endpoints!.tokenEndpoint\<close> on a service without
  endpoints throws before \<open>fetch\<close> is called. The \<open>catch\<close> rethrows the error as it is.
\<close>

definition exchangeCodeForTokens ::
  "OAuth2Service \<Rightarrow> string \<Rightarrow> string \<Rightarrow> TokenResponse http
     \<Rightarrow> (error + TokenResponse) \<times> net_call list" where
  "exchangeCodeForTokens svc code codeVerifier reply =
     (let params = [(''client_id'', null_string (clientId svc)),
                    (''code'', code),
                    (''code_verifier'', codeVerifier),
                    (''redirect_uri'', null_string (redirectUri svc)),
                    (''grant_type'', ''authorization_code'')]
      in case endpoints svc of
           None \<Rightarrow> (Inl (Error ''Cannot read properties of null (reading tokenEndpoint)''), [])
         | Some eps \<Rightarrow>
             let calls = [HttpPost (js_string (tokenEndpoint eps))
                            [(''Accept'', ''application/json''),
                             (''Content-Type'', ''application/x-www-form-urlencoded'')]
                            params]
             in case reply of
                  NetworkError m \<Rightarrow> (Inl (Error m), calls)
                | HttpError status statusText errorText \<Rightarrow>
                    (Inl (Error (''Token exchange failed: '' @ decimal status @ '' ''
                                 @ statusText @ '' - '' @ errorText)), calls)
                | BodyNotJson m \<Rightarrow> (Inl (Error m), calls)
                | Body tokenData \<Rightarrow>
                    if truthy (token_error tokenData)
                    then (Inl (Error (''Token error: ''
                                 @ js_string (or_else (error_description tokenData)
                                                (token_error tokenData)))), calls)
                    else if \<not> truthy (access_token tokenData)
                    then (Inl (Error ''No access token received''), calls)
                    else (Inr tokenData, calls))"

definition minimal_user :: "string option \<Rightarrow> UserInfo" where
  "minimal_user err =
     \<lparr> sub = Some ''unknown'', email = None, user_name = None, preferred_username = None,
       login = None, authenticated = Some True, user_error = err \<rparr>"

text \<open>
  \<open>fetchUserInfo\<close> never throws: every failure inside its \<open>try\<close> ends in the minimal
  user carrying the message.
\<close>

definition fetchUserInfo ::
  "OAuth2Service \<Rightarrow> string \<Rightarrow> UserInfo http \<Rightarrow> UserInfo \<times> net_call list" where
  "fetchUserInfo svc token reply =
     (case endpoints svc of
        None \<Rightarrow>
          (minimal_user (Some ''Cannot read properties of null (reading userinfoEndpoint)''), [])
      | Some eps \<Rightarrow>
          if \<not> truthy (userinfoEndpoint eps) then (minimal_user None, [])
          else
            let calls = [HttpGet (js_string (userinfoEndpoint eps))
                           [(''Authorization'', ''Bearer '' @ token),
                            (''Accept'', ''application/json'')]]
            in case reply of
                 NetworkError m \<Rightarrow> (minimal_user (Some m), calls)
               | HttpError status statusText body \<Rightarrow>
                   (minimal_user (Some (''Userinfo fetch failed: '' @ decimal status @ '' ''
                                        @ statusText)), calls)
               | BodyNotJson m \<Rightarrow> (minimal_user (Some m), calls)
               | Body userInfo \<Rightarrow> (userInfo, calls))"

text \<open>
  What one call of \<open>handleCallback\<close> meets: the replies of the token and userinfo
  endpoints and the three readings of \<open>Date.now()\<close>, in the order the code takes them
  (for \<open>expiresAt\<close>, for \<open>createdAt\<close>, and inside \<open>storeSession\<close>).
\<close>

record callback_env =
  token_reply :: "TokenResponse http"
  userinfo_reply :: "UserInfo http"
  now_expiry :: int
  now_created :: int
  now_stored :: int

text \<open>\<open>tokenResponse.expires_in || 3600\<close>: an absent value and \<open>0\<close> are falsy.\<close>

definition expiresIn_of :: "int option \<Rightarrow> int" where
  "expiresIn_of v = (case v of None \<Rightarrow> 3600 | Some n \<Rightarrow> if n = 0 then 3600 else n)"

text \<open>The body of the \<open>try\<close> block of \<open>handleCallback\<close>.\<close>

definition handleCallback_try ::
  "OAuth2Service \<Rightarrow> string \<Rightarrow> string \<Rightarrow> callback_env \<Rightarrow> localStorage
     \<Rightarrow> (error + UserInfo \<times> AuthSession) \<times> localStorage \<times> net_call list" where
  "handleCallback_try svc code state env st =
     (case retrieveOAuthState st of (storedState, st1) \<Rightarrow>
        if \<not> truthy storedState \<or> storedState \<noteq> Some state
        then (Inl (Error ''Invalid state parameter - possible CSRF attack''), st1, [])
        else
          case retrievePKCEVerifier st1 of (codeVerifier, st2) \<Rightarrow>
            if \<not> truthy codeVerifier
            then (Inl (Error ''PKCE code verifier not found''), st2, [])
            else
              case exchangeCodeForTokens svc code (js_string codeVerifier) (token_reply env) of
                (Inl e, calls) \<Rightarrow> (Inl e, st2, calls)
              | (Inr tokenResponse, calls) \<Rightarrow>
                  case fetchUserInfo svc (js_string (access_token tokenResponse))
                         (userinfo_reply env) of
                    (userInfo, calls') \<Rightarrow>
                      let expiresIn = expiresIn_of (expires_in tokenResponse);
                          expiresAt' = now_expiry env + expiresIn * 1000;
                          session =
                            \<lparr> accessToken = js_string (access_token tokenResponse),
                              refreshToken = if_truthy (refresh_token tokenResponse),
                              idToken = if_truthy (id_token tokenResponse),
                              tokenType = js_string (or_else (token_type tokenResponse)
                                                       (Some ''Bearer'')),
                              session_scope = or_else (token_scope tokenResponse)
                                                (service_scope svc),
                              expiresAt = expiresAt',
                              createdAt = now_created env,
                              user = userInfo \<rparr>
                      in case storeSession (now_stored env) session st2 of
                           (Inl e, st3) \<Rightarrow> (Inl e, st3, calls @ calls')
                         | (Inr _, st3) \<Rightarrow> (Inr (userInfo, session), st3, calls @ calls'))"

text \<open>
  \<open>handleCallback\<close>: \<open>ensureInitialized\<close> runs outside the \<open>try\<close>; the \<open>catch\<close> block
  retrieves verifier and state once more, which removes what is left of them, and
  rethrows with the prefixed message.
\<close>

definition handleCallback ::
  "OAuth2Service \<Rightarrow> string \<Rightarrow> string \<Rightarrow> callback_env \<Rightarrow> localStorage
     \<Rightarrow> (error + UserInfo \<times> AuthSession) \<times> localStorage \<times> net_call list" where
  "handleCallback svc code state env st =
     (if \<not> initialized svc
      then (Inl (Error ''OAuth2 service not initialized. Call initialize() first.''), st, [])
      else
        case handleCallback_try svc code state env st of
          (Inr r, st', calls) \<Rightarrow> (Inr r, st', calls)
        | (Inl e, st', calls) \<Rightarrow>
            (Inl (Error (''Callback handling failed: '' @ message e)),
             snd (retrieveOAuthState (snd (retrievePKCEVerifier st'))), calls))"

section \<open>PKCE generator (the pkceUtils module)\<close>

type_synonym byte = "8 word"

text \<open>
  \<open>TextEncoder.encode\<close> is UTF-8: a character below 128 is one byte, a character from
  128 to 255 is two.
\<close>

definition utf8_char :: "char \<Rightarrow> byte list" where
  "utf8_char c =
     (let n = (of_char c :: nat)
      in if n < 128 then [of_nat n] else [of_nat (192 + n div 64), of_nat (128 + n mod 64)])"

definition TextEncoder_encode :: "string \<Rightarrow> byte list" where
  "TextEncoder_encode s = concat (map utf8_char s)"

text \<open>\<open>btoa(String.fromCharCode.apply(null, bytes))\<close>.\<close>

definition btoa_bytes :: "byte list \<Rightarrow> string" where
  "btoa_bytes bs = base64 (map unat bs)"

definition replace_all :: "char \<Rightarrow> char \<Rightarrow> string \<Rightarrow> string" where
  "replace_all c d s = map (\<lambda>x. if x = c then d else x) s"

definition remove_all :: "char \<Rightarrow> string \<Rightarrow> string" where
  "remove_all c s = filter (\<lambda>x. x \<noteq> c) s"

text \<open>\<open>.replace(/\+/g, '-').replace(/\//g, '_').replace(/=/g, '')\<close>.\<close>

definition base64url :: "string \<Rightarrow> string" where
  "base64url s = remove_all CHR ''='' (replace_all CHR ''/'' CHR ''_'' (replace_all CHR ''+'' CHR ''-'' s))"

text \<open>
  \<open>generateCodeVerifier\<close> and \<open>generateState\<close> take the bytes \<open>getRandomValues\<close> wrote
  (32 and 16 of them).
\<close>

definition generateCodeVerifier :: "byte list \<Rightarrow> string" where
  "generateCodeVerifier randomBytes = base64url (btoa_bytes randomBytes)"

definition generateState :: "byte list \<Rightarrow> string" where
  "generateState randomBytes = base64url (btoa_bytes randomBytes)"

text \<open>
  \<open>generateCodeChallenge\<close>: the first argument is the platform's
  \<open>crypto.subtle.digest('SHA-256', _)\<close>, a function from bytes to bytes.
\<close>

definition generateCodeChallenge :: "(byte list \<Rightarrow> byte list) \<Rightarrow> string \<Rightarrow> string" where
  "generateCodeChallenge digest verifier =
     (let data = TextEncoder_encode verifier;
          hashBuffer = digest data
      in base64url (btoa_bytes hashBuffer))"

section \<open>The clock as text\<close>

text \<open>
  \<open>Date.prototype.toISOString\<close> of the instant \<open>t\<close> (milliseconds since the epoch, UTC):
  \<open>YYYY-MM-DDTHH:mm:ss.sssZ\<close>, with a sign and six digits for a year outside 0 to 9999.
  The date is computed from the day number in the proleptic Gregorian calendar.
\<close>

definition pad :: "nat \<Rightarrow> nat \<Rightarrow> string" where
  "pad w n = replicate (w - length (decimal n)) CHR ''0'' @ decimal n"

definition civil_from_days :: "int \<Rightarrow> int \<times> int \<times> int" where
  "civil_from_days days =
     (let z = days + 719468;
          era = z div 146097;
          doe = z - era * 146097;
          yoe = (doe - doe div 1460 + doe div 36524 - doe div 146096) div 365;
          y = yoe + era * 400;
          doy = doe - (365 * yoe + yoe div 4 - yoe div 100);
          mp = (5 * doy + 2) div 153;
          d = doy - (153 * mp + 2) div 5 + 1;
          m = (if mp < 10 then mp + 3 else mp - 9)
      in (if m \<le> 2 then y + 1 else y, m, d))"

definition iso_year :: "int \<Rightarrow> string" where
  "iso_year y =
     (if 0 \<le> y \<and> y \<le> 9999 then pad 4 (nat y)
      else if y < 0 then CHR ''-'' # pad 6 (nat (- y))
      else CHR ''+'' # pad 6 (nat y))"

definition toISOString :: "int \<Rightarrow> string" where
  "toISOString t =
     (let ms = t mod 1000;
          s = t div 1000;
          (y, m, d) = civil_from_days (s div 86400)
      in iso_year y @ ''-'' @ pad 2 (nat m) @ ''-'' @ pad 2 (nat d) @ ''T''
         @ pad 2 (nat ((s div 3600) mod 24)) @ '':'' @ pad 2 (nat ((s div 60) mod 60)) @ '':''
         @ pad 2 (nat (s mod 60)) @ ''.'' @ pad 3 (nat ms) @ ''Z'')"

section \<open>AWS federation service (src/services/awsService.ts)\<close>

record AWSConfig =
  region :: string
  defaultDurationSeconds :: int
  consoleBaseUrl :: string
  stsEndpoint :: string
  federationEndpoint :: string
  federationEndpointProxy :: "string option"

text \<open>\<open>split('@')[0]\<close>: the part before the first \<open>@\<close>.\<close>

definition before_at :: "string \<Rightarrow> string" where
  "before_at s = takeWhile (\<lambda>c. c \<noteq> CHR ''@'') s"

text \<open>
  \<open>generateSessionName\<close>. The first argument is the instant both \<open>new Date()\<close> and
  \<open>Date.now()\<close> give. A \<open>null\<close> user (\<open>None\<close>) makes the first property read throw, and the
  \<open>catch\<close> block returns the name built from \<open>Date.now()\<close>.
\<close>

definition generateSessionName :: "int \<Rightarrow> UserInfo option \<Rightarrow> string" where
  "generateSessionName now githubUser =
     (case githubUser of
        None \<Rightarrow> take SESSION_NAME_MAX_LENGTH (''github-session-'' @ int_toString now)
      | Some u \<Rightarrow>
          let username =
                js_string
                  (or_else (login u)
                    (or_else (preferred_username u)
                      (or_else (map_option before_at (email u))
                        (or_else (map_option (filter is_alnum) (sub u))
                          (Some ''github-user'')))));
              cleanUsername =
                map (\<lambda>c. if is_alnum c \<or> c \<in> set ''+=,.@-'' then c else CHR ''-'') username;
              timestamp =
                take 19 (replace_all CHR ''.'' CHR ''-''
                          (replace_all CHR '':'' CHR ''-'' (toISOString now)));
              sessionName = ''github-'' @ cleanUsername @ ''-'' @ timestamp;
              finalSessionName = take SESSION_NAME_MAX_LENGTH sessionName
          in if \<not> AWS_SESSION_NAME_PATTERN finalSessionName
             then take SESSION_NAME_MAX_LENGTH (''github-user-'' @ timestamp)
             else finalSessionName)"

text \<open>
  A thrown JavaScript error as \<open>createAWSError\<close> reads it: its \<open>name\<close>, its \<open>message\<close>
  and a \<open>code\<close> it may carry.
\<close>

record js_error =
  error_name :: string
  error_message :: string
  error_code :: "string option"

definition new_Error :: "string \<Rightarrow> js_error" where
  "new_Error m = \<lparr> error_name = ''Error'', error_message = m, error_code = None \<rparr>"

record AWSError =
  aws_name :: string
  aws_message :: string
  aws_code :: string

definition createAWSError :: "js_error \<Rightarrow> AWSError" where
  "createAWSError e =
     \<lparr> aws_name = ''AWSError'',
       aws_message = error_message e,
       aws_code = (if error_name e \<noteq> [] \<and> error_message e \<noteq> [] then error_name e
                   else js_string (or_else (error_code e) (Some ''UnknownError''))) \<rparr>"

record Credentials =
  AccessKeyId :: "string option"
  SecretAccessKey :: "string option"
  SessionToken :: "string option"
  Expiration :: "int option"

record AssumedRoleUser =
  AssumedRoleId :: "string option"
  Arn :: "string option"

text \<open>What \<open>stsClient.send\<close> gives: a rejection with an SDK error, or the output.\<close>

datatype sts_reply =
    StsRejected js_error
  | StsOutput "Credentials option" "AssumedRoleUser option"

record AssumeRoleResult =
  result_Credentials :: Credentials
  result_AssumedRoleUser :: "AssumedRoleUser option"

text \<open>
  \<open>assumeRoleWithWebIdentity\<close>: a missing \<open>durationSeconds\<close> argument (\<open>None\<close>) takes the
  configured default.
\<close>

definition assumeRoleWithWebIdentity ::
  "AWSConfig \<Rightarrow> string \<Rightarrow> string \<Rightarrow> string \<Rightarrow> int option \<Rightarrow> sts_reply
     \<Rightarrow> (AWSError + AssumeRoleResult) \<times> net_call list" where
  "assumeRoleWithWebIdentity cfg roleArn webIdentityToken sessionName duration reply =
     (let durationSeconds =
            (case duration of None \<Rightarrow> defaultDurationSeconds cfg | Some d \<Rightarrow> d)
      in if roleArn = [] \<or> webIdentityToken = [] \<or> sessionName = []
         then (Inl (createAWSError
                 (new_Error ''Missing required parameters for AssumeRoleWithWebIdentity'')), [])
         else if durationSeconds < MIN_DURATION_SECONDS \<or> durationSeconds > MAX_DURATION_SECONDS
         then (Inl (createAWSError
                 (new_Error (''Duration must be between '' @ int_toString MIN_DURATION_SECONDS
                    @ '' and '' @ int_toString MAX_DURATION_SECONDS @ '' seconds''))), [])
         else
           let calls = [StsAssumeRoleWithWebIdentity roleArn sessionName webIdentityToken
                          durationSeconds]
           in case reply of
                StsRejected e \<Rightarrow> (Inl (createAWSError e), calls)
              | StsOutput None aru \<Rightarrow>
                  (Inl (createAWSError (new_Error ''No credentials received from AWS STS'')),
                   calls)
              | StsOutput (Some c) aru \<Rightarrow>
                  if \<not> truthy (AccessKeyId c) \<or> \<not> truthy (SecretAccessKey c)
                     \<or> \<not> truthy (SessionToken c) \<or> Expiration c = None
                  then (Inl (createAWSError
                          (new_Error ''Incomplete credentials in AWS STS response'')), calls)
                  else
                    (Inr \<lparr> result_Credentials = c,
                           result_AssumedRoleUser =
                             (case aru of
                                None \<Rightarrow> None
                              | Some a \<Rightarrow>
                                  if truthy (AssumedRoleId a) \<and> truthy (Arn a)
                                  then Some a else None) \<rparr>, calls))"

section \<open>Concrete values used in the statements\<close>

definition MyRole_arn :: string where
  "MyRole_arn = ''arn:aws:iam::123456789012:role/MyRole''"

text \<open>An imported entry the validation loop of \<open>importHistory\<close> rejects.\<close>

definition invalid_import :: "ImportedRole \<Rightarrow> bool" where
  "invalid_import r \<longleftrightarrow>
     \<not> truthy (imported_arn r) \<or> \<not> AWS_ROLE_ARN_PATTERN (js_string (imported_arn r))"

text \<open>
  Import data with the same ARN twice, as
  \<open>{"roles": [{"arn": A, "lastUsed": 2, "useCount": 1, ...},
  {"arn": A, "lastUsed": 1, "useCount": 5, ...}]}\<close>.
\<close>

definition dup_import :: imported_json where
  "dup_import = RolesArray
     [\<lparr> imported_arn = Some MyRole_arn, imported_name = ''MyRole'',
        imported_accountId = ''123456789012'', imported_lastUsed = 2, imported_useCount = 1 \<rparr>,
      \<lparr> imported_arn = Some MyRole_arn, imported_name = ''MyRole'',
        imported_accountId = ''123456789012'', imported_lastUsed = 1, imported_useCount = 5 \<rparr>]"

text \<open>The characters of a base64url string without padding.\<close>

definition base64url_char :: "char \<Rightarrow> bool" where
  "base64url_char c \<longleftrightarrow>
     c \<in> set ''ABCDEFGHIJKLMNOPQRSTUVWXYZabcdefghijklmnopqrstuvwxyz0123456789-_''"

text \<open>The characters \<open>toISOString\<close> produces.\<close>

definition iso_char :: "char \<Rightarrow> bool" where
  "iso_char c \<longleftrightarrow> is_digit c \<or> c \<in> set ''-:.TZ+''"

text \<open>
  A digest that returns 32 bytes, as SHA-256 does, for running one input; and the
  verifier of RFC 7636, appendix B.
\<close>

definition constant_digest :: "byte list \<Rightarrow> byte list" where
  "constant_digest d = replicate 32 255"

definition rfc7636_verifier :: string where
  "rfc7636_verifier = ''dBjftJeZ4CVP-mB92K27uhbUJU1p1r_wW1gFWFOEjXk''"

text \<open>The configuration \<open>new AWSService()\<close> builds from \<open>AWS_CONSTANTS\<close>.\<close>

definition default_AWSConfig :: AWSConfig where
  "default_AWSConfig =
     \<lparr> region = ''us-east-1'', defaultDurationSeconds = DEFAULT_DURATION_SECONDS,
       consoleBaseUrl = ''https://console.aws.amazon.com'',
       stsEndpoint = ''https://sts.amazonaws.com'',
       federationEndpoint = ''https://signin.aws.amazon.com/federation'',
       federationEndpointProxy = None \<rparr>"

definition octo_user :: UserInfo where
  "octo_user =
     \<lparr> sub = Some ''12345'', email = Some ''octo@example.org'', user_name = Some ''Octo Cat'',
       preferred_username = None, login = Some ''octo_cat'', authenticated = None,
       user_error = None \<rparr>"

text \<open>
  A provider, a service initialized against it, a store holding a pending verifier and
  state as \<open>login\<close> leaves them, and replies of the provider's endpoints.
\<close>

definition CSRF_message :: string where
  "CSRF_message = ''Callback handling failed: Invalid state parameter - possible CSRF attack''"

definition idp_authority :: ustring where
  "idp_authority = ustr ''https://idp.example''"

definition idp_config :: OIDCConfiguration where
  "idp_config =
     \<lparr> issuer = Some ''https://idp.example'',
       authorization_endpoint = Some ''https://idp.example/authorize'',
       token_endpoint = Some ''https://idp.example/token'',
       userinfo_endpoint = Some ''https://idp.example/userinfo'',
       end_session_endpoint = None, scopes_supported = None,
       response_types_supported = None, code_challenge_methods_supported = None \<rparr>"

definition ready_service :: OAuth2Service where
  "ready_service =
     \<lparr> authority = Some idp_authority, clientId = Some ''abc'',
       service_scope = Some ''openid profile'', redirectUri = Some ''https://app.example'',
       endpoints = Some (extract_endpoints idp_config), initialized = True \<rparr>"

definition pending_store :: localStorage where
  "pending_store =
     empty_storage \<lparr> pkce_verifier := Some ''dBjftJeZ4CVP-mB92K27uhbUJU1p1r_wW1gFWFOEjXk'',
                     oauth_state := Some ''Zm9vYmFyc3RhdGUxMjM0NQ'' \<rparr>"

definition token_3600 :: TokenResponse where
  "token_3600 =
     \<lparr> access_token = Some ''gho_token'', refresh_token = None, id_token = Some ''jwt'',
       token_type = Some ''bearer'', expires_in = Some 3600, token_scope = None,
       token_error = None, error_description = None \<rparr>"

definition callback_ok :: callback_env where
  "callback_ok =
     \<lparr> token_reply = Body token_3600, userinfo_reply = Body octo_user,
       now_expiry = 1700000000000, now_created = 1700000000000,
       now_stored = 1700000000000 \<rparr>"


text \<open>
  The session \<open>handleCallback\<close> builds from a token response and a user, and the copy
  of it \<open>storeSession\<close> writes.
\<close>

definition session_of ::
  "OAuth2Service \<Rightarrow> callback_env \<Rightarrow> TokenResponse \<Rightarrow> UserInfo \<Rightarrow> AuthSession" where
  "session_of svc env t u =
     \<lparr> accessToken = js_string (access_token t),
       refreshToken = if_truthy (refresh_token t),
       idToken = if_truthy (id_token t),
       tokenType = js_string (or_else (token_type t) (Some ''Bearer'')),
       session_scope = or_else (token_scope t) (service_scope svc),
       expiresAt = now_expiry env + expiresIn_of (expires_in t) * 1000,
       createdAt = now_created env,
       user = u \<rparr>"

definition stored_copy :: "callback_env \<Rightarrow> AuthSession \<Rightarrow> AuthSession" where
  "stored_copy env s =
     s \<lparr> createdAt := (if createdAt s \<noteq> 0 then createdAt s else now_stored env) \<rparr>"











text \<open>
  The session a callback at \<open>1700000000000\<close> yields for \<open>octo_user\<close> with a lifetime of
  3600 seconds, the store after it, and the two network calls of the callback. Then the
  same callback with \<open>expires_in\<close> absent, with \<open>expires_in = 0\<close>, and with a userinfo
  endpoint that answers 503.
\<close>

definition session_3600 :: AuthSession where
  "session_3600 =
     \<lparr> accessToken = ''gho_token'', refreshToken = None, idToken = Some ''jwt'',
       tokenType = ''bearer'', session_scope = Some ''openid profile'',
       expiresAt = 1700003600000, createdAt = 1700000000000, user = octo_user \<rparr>"

definition logged_in_store :: localStorage where
  "logged_in_store = empty_storage \<lparr> auth_session := Some (Json session_3600) \<rparr>"

definition token_call :: net_call where
  "token_call =
     HttpPost ''https://idp.example/token''
       [(''Accept'', ''application/json''),
        (''Content-Type'', ''application/x-www-form-urlencoded'')]
       [(''client_id'', ''abc''), (''code'', ''xyz''),
        (''code_verifier'', ''dBjftJeZ4CVP-mB92K27uhbUJU1p1r_wW1gFWFOEjXk''),
        (''redirect_uri'', ''https://app.example''),
        (''grant_type'', ''authorization_code'')]"

definition userinfo_call :: net_call where
  "userinfo_call =
     HttpGet ''https://idp.example/userinfo''
       [(''Authorization'', ''Bearer gho_token''), (''Accept'', ''application/json'')]"

definition callback_no_expiry :: callback_env where
  "callback_no_expiry = callback_ok \<lparr> token_reply := Body (token_3600 \<lparr> expires_in := None \<rparr>) \<rparr>"

definition callback_zero :: callback_env where
  "callback_zero = callback_ok \<lparr> token_reply := Body (token_3600 \<lparr> expires_in := Some 0 \<rparr>) \<rparr>"

definition callback_userinfo_down :: callback_env where
  "callback_userinfo_down =
     callback_ok \<lparr> userinfo_reply := HttpError 503 ''Service Unavailable'' [] \<rparr>"

section \<open>Properties of the role history store\<close>

lemmas char_class_defs = is_digit_def is_alnum_def word_char_def name_char_def

lemma MyRole_arn_valid: "isValidRoleArn MyRole_arn"
  by (simp add: MyRole_arn_def isValidRoleArn_def AWS_ROLE_ARN_PATTERN_def char_class_defs)




lemma MyRole_arn_nonempty: "MyRole_arn \<noteq> []"
  by (simp add: MyRole_arn_def)








lemma validate_roles_Inl:
  "list_ex invalid_import rs \<Longrightarrow> \<exists>e. validate_roles rs = Inl e"
  by (induction rs) (auto simp: invalid_import_def isValidRoleArn_def)

lemma validate_roles_Inr:
  "\<not> list_ex invalid_import rs \<Longrightarrow> validate_roles rs = Inr ()"
  by (induction rs) (auto simp: invalid_import_def isValidRoleArn_def)

lemma importHistory_error_keeps_store:
  "fst (importHistory mx imported st) = Inl e \<Longrightarrow> snd (importHistory mx imported st) = st"
  by (auto simp: importHistory_def Let_def split: imported_json.splits sum.splits)

lemma importHistory_rejects:
  assumes "imported = SyntaxError m \<or> imported = NoRolesArray \<or>
           (\<exists>rs. imported = RolesArray rs \<and> list_ex invalid_import rs)"
  shows "\<exists>e. importHistory mx imported st = (Inl e, st)"
  using assms validate_roles_Inl
  by (fastforce simp: importHistory_def split: imported_json.splits sum.splits)

lemma importHistory_accepts:
  assumes "\<not> list_ex invalid_import rs"
  shows "importHistory mx (RolesArray rs) st =
     (Inr (), saveHistory
        \<lparr> roles = slice0 mx (sort_lastUsed_desc
                     (merge_current (map imported_item rs) (roles (getHistory mx st)))),
          maxItems = mx \<rparr> st)"
  using validate_roles_Inr [OF assms] by (simp add: importHistory_def Let_def)

lemma merge_current_distinct:
  "distinct (map arn merged) \<Longrightarrow> distinct (map arn (merge_current merged cur))"
proof (induction cur arbitrary: merged)
  case Nil
  then show ?case by simp
next
  case (Cons c cur)
  show ?case
  proof (cases "list_ex (\<lambda>r. arn r = arn c) merged")
    case True
    then show ?thesis using Cons by simp
  next
    case False
    then have "distinct (map arn (merged @ [c]))"
      using Cons.prems by (auto simp: list_ex_iff)
    then show ?thesis using False Cons.IH by simp
  qed
qed

lemma sort_lastUsed_desc_distinct:
  "distinct (map arn rs) \<Longrightarrow> distinct (map arn (sort_lastUsed_desc rs))"
  unfolding sort_lastUsed_desc_def
  by (metis distinct_map distinct_sort set_sort)

lemma slice0_distinct: "distinct (map f rs) \<Longrightarrow> distinct (map f (slice0 n rs))"
  by (simp add: slice0_def take_map [symmetric] del: take_map)

lemma sort_lastUsed_desc_sorted:
  "sorted (map (\<lambda>r. - lastUsed r) (sort_lastUsed_desc rs))"
  by (simp add: sort_lastUsed_desc_def)

lemma slice0_length: "0 \<le> n \<Longrightarrow> int (length (slice0 n rs)) \<le> n"
  by (simp add: slice0_def)

text \<open>
  C10. The error half of the claim holds (\<open>importHistory_rejects\<close>,
  \<open>importHistory_error_keeps_store\<close>), and an accepted import replaces the history by
  the sorted, trimmed merge (\<open>importHistory_accepts\<close>). The merge drops the current
  entries whose ARN the import has, but it does not look for an ARN that occurs twice in
  the import itself: importing \<open>dup_import\<close> into an empty store succeeds and leaves two
  entries with the same ARN, so the stored history is not deduplicated by ARN.
\<close>

theorem importHistory_keeps_duplicate_arns:
  "fst (importHistory MAX_ROLE_HISTORY dup_import empty_storage) = Inr () \<and>
   map arn (roles (getHistory MAX_ROLE_HISTORY
     (snd (importHistory MAX_ROLE_HISTORY dup_import empty_storage)))) =
     [MyRole_arn, MyRole_arn]"
  by (simp add: importHistory_def dup_import_def MyRole_arn_valid MyRole_arn_nonempty Let_def js_string_def
      imported_item_def sort_lastUsed_desc_def slice0_def getHistory_def saveHistory_def
      empty_storage_def MAX_ROLE_HISTORY_def)

section \<open>Properties of the AWS federation service\<close>

lemma int_toString_900: "int_toString 900 = ''900''"
  by (simp add: int_toString_def decimal.simps digit_char_def)

lemma int_toString_43200: "int_toString 43200 = ''43200''"
  by (simp add: int_toString_def decimal.simps digit_char_def)

lemma duration_message:
  "''Duration must be between '' @ int_toString MIN_DURATION_SECONDS
     @ '' and '' @ int_toString MAX_DURATION_SECONDS @ '' seconds'' =
   ''Duration must be between 900 and 43200 seconds''"
  by (simp add: MIN_DURATION_SECONDS_def MAX_DURATION_SECONDS_def int_toString_900
      int_toString_43200)

text \<open>
  C6. For every \<open>durationSeconds\<close> below 900 or above 43200,
  \<open>assumeRoleWithWebIdentity\<close> rejects and the list of network calls is empty; when the
  other three arguments are present the error is the duration error. For a duration
  from 900 to 43200 (and the other arguments present) the validation passes: the STS call
  is issued, with that duration.
\<close>

theorem assumeRole_duration_bounds:
  "(d < 900 \<or> d > 43200 \<longrightarrow>
      (\<exists>e. assumeRoleWithWebIdentity cfg roleArn webToken sessionName (Some d) reply = (Inl e, [])
         \<and> (roleArn \<noteq> [] \<and> webToken \<noteq> [] \<and> sessionName \<noteq> [] \<longrightarrow>
              aws_message e = ''Duration must be between 900 and 43200 seconds''))) \<and>
   (900 \<le> d \<and> d \<le> 43200 \<and> roleArn \<noteq> [] \<and> webToken \<noteq> [] \<and> sessionName \<noteq> [] \<longrightarrow>
      snd (assumeRoleWithWebIdentity cfg roleArn webToken sessionName (Some d) reply) =
        [StsAssumeRoleWithWebIdentity roleArn sessionName webToken d])"
proof (intro conjI impI)
  assume "d < 900 \<or> d > 43200"
  then show "\<exists>e. assumeRoleWithWebIdentity cfg roleArn webToken sessionName (Some d) reply = (Inl e, [])
         \<and> (roleArn \<noteq> [] \<and> webToken \<noteq> [] \<and> sessionName \<noteq> [] \<longrightarrow>
              aws_message e = ''Duration must be between 900 and 43200 seconds'')"
    by (auto simp: assumeRoleWithWebIdentity_def MIN_DURATION_SECONDS_def
        MAX_DURATION_SECONDS_def createAWSError_def new_Error_def int_toString_900
        int_toString_43200)
next
  assume "900 \<le> d \<and> d \<le> 43200 \<and> roleArn \<noteq> [] \<and> webToken \<noteq> [] \<and> sessionName \<noteq> []"
  then show "snd (assumeRoleWithWebIdentity cfg roleArn webToken sessionName (Some d) reply) =
        [StsAssumeRoleWithWebIdentity roleArn sessionName webToken d]"
    by (auto simp: assumeRoleWithWebIdentity_def MIN_DURATION_SECONDS_def
        MAX_DURATION_SECONDS_def Let_def split: sts_reply.splits option.splits)
qed


theorem assumeRole_duration_bounds_witness:
  "(\<exists>e. assumeRoleWithWebIdentity default_AWSConfig MyRole_arn ''jwt'' ''github-octo''
          (Some 899) (StsOutput None None) = (Inl e, [])
        \<and> aws_message e = ''Duration must be between 900 and 43200 seconds'') \<and>
   (\<exists>e. assumeRoleWithWebIdentity default_AWSConfig MyRole_arn ''jwt'' ''github-octo''
          (Some 43201) (StsOutput None None) = (Inl e, [])
        \<and> aws_message e = ''Duration must be between 900 and 43200 seconds'') \<and>
   snd (assumeRoleWithWebIdentity default_AWSConfig MyRole_arn ''jwt'' ''github-octo''
          (Some 900) (StsOutput None None)) =
     [StsAssumeRoleWithWebIdentity MyRole_arn ''github-octo'' ''jwt'' 900]"
proof -
  have ne: "MyRole_arn \<noteq> [] \<and> ''jwt'' \<noteq> [] \<and> ''github-octo'' \<noteq> []"
    by (simp add: MyRole_arn_def)
  show ?thesis
    using ne
      assumeRole_duration_bounds [of 899 default_AWSConfig MyRole_arn "''jwt''"
        "''github-octo''" "StsOutput None None"]
      assumeRole_duration_bounds [of 43201 default_AWSConfig MyRole_arn "''jwt''"
        "''github-octo''" "StsOutput None None"]
      assumeRole_duration_bounds [of 900 default_AWSConfig MyRole_arn "''jwt''"
        "''github-octo''" "StsOutput None None"]
    by simp
qed

lemma digit_char_is_digit: "is_digit (digit_char d)"
proof -
  have "d mod 10 < length ''0123456789''" by simp
  then have "''0123456789'' ! (d mod 10) \<in> set ''0123456789''" by (rule nth_mem)
  then show ?thesis by (simp only: is_digit_def digit_char_def)
qed

lemma decimal_digits: "list_all is_digit (decimal n)"
proof (induction n rule: decimal.induct)
  case (1 n)
  show ?case
  proof (cases "n < 10")
    case True
    then show ?thesis by (subst decimal.simps) (simp add: digit_char_is_digit)
  next
    case False
    then show ?thesis using 1 by (subst decimal.simps) (simp add: digit_char_is_digit)
  qed
qed

lemma decimal_nonempty: "decimal n \<noteq> []"
  by (subst decimal.simps) simp

lemma is_digit_zero: "is_digit CHR ''0''"
  by (simp add: is_digit_def)

lemma pad_digits: "list_all is_digit (pad w n)"
  using decimal_digits [of n] by (auto simp: pad_def list_all_iff is_digit_zero)

lemma is_digit_iso: "is_digit c \<Longrightarrow> iso_char c"
  by (simp add: iso_char_def)

lemma list_all_mono': "list_all P xs \<Longrightarrow> (\<And>x. P x \<Longrightarrow> Q x) \<Longrightarrow> list_all Q xs"
  by (auto simp: list_all_iff)

lemma pad_iso: "list_all iso_char (pad w n)"
  using pad_digits by (rule list_all_mono') (rule is_digit_iso)

lemma iso_year_iso: "list_all iso_char (iso_year y)"
  by (simp add: iso_year_def pad_iso) (simp add: iso_char_def)

lemma toISOString_chars: "list_all iso_char (toISOString t)"
  by (simp add: toISOString_def Let_def split_def iso_year_iso pad_iso) (simp add: iso_char_def)

lemma is_digit_name: "is_digit c \<Longrightarrow> name_char c"
  by (simp add: name_char_def word_char_def is_alnum_def)

lemma timestamp_chars:
  "list_all name_char
     (take 19 (replace_all CHR ''.'' CHR ''-'' (replace_all CHR '':'' CHR ''-'' (toISOString t))))"
proof -
  have step: "name_char (if (if c = CHR '':'' then CHR ''-'' else c) = CHR ''.'' then CHR ''-''
                 else (if c = CHR '':'' then CHR ''-'' else c))" if "iso_char c" for c
    using that by (auto simp: iso_char_def char_class_defs)
  have "name_char x"
    if "x \<in> set (take 19 (replace_all CHR ''.'' CHR ''-''
                   (replace_all CHR '':'' CHR ''-'' (toISOString t))))" for x
  proof -
    from that have "x \<in> set (replace_all CHR ''.'' CHR ''-''
                   (replace_all CHR '':'' CHR ''-'' (toISOString t)))"
      by (rule in_set_takeD)
    then obtain c where c: "c \<in> set (toISOString t)"
      and x: "x = (if (if c = CHR '':'' then CHR ''-'' else c) = CHR ''.'' then CHR ''-''
                 else (if c = CHR '':'' then CHR ''-'' else c))"
      unfolding replace_all_def by auto
    from c toISOString_chars [of t] have "iso_char c"
      by (simp add: list_all_iff)
    then show ?thesis unfolding x by (rule step)
  qed
  then show ?thesis unfolding list_all_iff by blast
qed

lemma clean_chars:
  "list_all name_char
     (map (\<lambda>c. if is_alnum c \<or> c \<in> set ''+=,.@-'' then c else CHR ''-'') username)"
  by (auto simp: list_all_iff name_char_def word_char_def)

lemma name_char_minus: "name_char CHR ''-''"
  by (simp add: name_char_def)

lemma int_toString_chars: "list_all name_char (int_toString i)"
  using decimal_digits [of "nat i"] decimal_digits [of "nat (- i)"]
  by (auto simp: int_toString_def list_all_iff name_char_minus intro: is_digit_name)

lemma take_pattern:
  assumes "list_all name_char s" and "s \<noteq> []" and "0 < n"
  shows "AWS_SESSION_NAME_PATTERN (take n s)"
  using assms by (cases s; cases n) (auto simp: AWS_SESSION_NAME_PATTERN_def list_all_iff dest: in_set_takeD)

text \<open>
  C7. For every user (a \<open>null\<close> user and users with missing, empty or arbitrary
  \<open>login\<close>, \<open>preferred_username\<close>, \<open>email\<close> and \<open>sub\<close> included) and every instant,
  \<open>generateSessionName\<close> returns a string of at most 64 characters that matches
  \<open>AWS_SESSION_NAME_PATTERN\<close>. The function is total: no input makes it throw.
\<close>

theorem generateSessionName_safe:
  "length (generateSessionName now githubUser) \<le> 64 \<and>
   AWS_SESSION_NAME_PATTERN (generateSessionName now githubUser)"
proof (cases githubUser)
  case None
  have "list_all name_char (''github-session-'' @ int_toString now)"
    using int_toString_chars [of now] by (simp add: char_class_defs)
  then have "AWS_SESSION_NAME_PATTERN (take 64 (''github-session-'' @ int_toString now))"
    by (rule take_pattern) simp_all
  then show ?thesis using None
    by (simp add: generateSessionName_def SESSION_NAME_MAX_LENGTH_def)
next
  case (Some u)
  define username where "username =
     js_string (or_else (login u) (or_else (preferred_username u)
       (or_else (map_option before_at (email u))
         (or_else (map_option (filter is_alnum) (sub u)) (Some ''github-user'')))))"
  define clean where
    "clean = map (\<lambda>c. if is_alnum c \<or> c \<in> set ''+=,.@-'' then c else CHR ''-'') username"
  define ts where "ts =
     take 19 (replace_all CHR ''.'' CHR ''-'' (replace_all CHR '':'' CHR ''-'' (toISOString now)))"
  have all: "list_all name_char (''github-'' @ clean @ ''-'' @ ts)"
    using clean_chars [of username] timestamp_chars [of now]
    by (simp add: clean_def ts_def) (simp add: char_class_defs)
  have ok: "AWS_SESSION_NAME_PATTERN (take 64 (''github-'' @ clean @ ''-'' @ ts))"
    using all by (rule take_pattern) simp_all
  have eq: "generateSessionName now (Some u) =
      (if \<not> AWS_SESSION_NAME_PATTERN (take 64 (''github-'' @ clean @ ''-'' @ ts))
       then take 64 (''github-user-'' @ ts)
       else take 64 (''github-'' @ clean @ ''-'' @ ts))"
    by (simp only: generateSessionName_def option.case Let_def username_def clean_def ts_def
        SESSION_NAME_MAX_LENGTH_def)
  have "generateSessionName now githubUser = take 64 (''github-'' @ clean @ ''-'' @ ts)"
    using ok unfolding Some eq by (simp only: not_True_eq_False if_False)
  then show ?thesis using ok by simp
qed

theorem generateSessionName_safe_witness:
  "generateSessionName 1700000000000 (Some octo_user) = ''github-octo-cat-2023-11-14T22-13-20'' \<and>
   length (generateSessionName 1700000000000 (Some octo_user)) \<le> 64 \<and>
   AWS_SESSION_NAME_PATTERN (generateSessionName 1700000000000 (Some octo_user))"
proof -
  have v: "generateSessionName 1700000000000 (Some octo_user) =
      ''github-octo-cat-2023-11-14T22-13-20''"
    by code_simp
  show ?thesis
    using generateSessionName_safe [of 1700000000000 "Some octo_user"] v by simp
qed

section \<open>Properties of the PKCE generator\<close>

lemma base64_char_alphabet: "i < 64 \<Longrightarrow> base64_char i \<in> set base64_alphabet"
proof -
  assume "i < 64"
  then have "i < length base64_alphabet" by (simp add: base64_alphabet_def)
  then show ?thesis unfolding base64_char_def by (rule nth_mem)
qed

lemma base64url_append: "base64url (xs @ ys) = base64url xs @ base64url ys"
  by (simp add: base64url_def replace_all_def remove_all_def)

lemma base64url_Cons: "base64url (x # y # ys) = base64url [x] @ base64url (y # ys)"
  using base64url_append [of "[x]" "y # ys"] by simp

lemma base64url_pad: "base64url [CHR ''=''] = []"
  by (simp add: base64url_def replace_all_def remove_all_def)

lemma base64url_Nil: "base64url [] = []"
  by (simp add: base64url_def replace_all_def remove_all_def)

lemma base64url_char_ok:
  assumes "i < 64"
  shows "\<exists>c. base64url [base64_char i] = [c] \<and> base64url_char c"
  using base64_char_alphabet [OF assms]
  by (auto simp: base64url_def replace_all_def remove_all_def base64_alphabet_def
      base64url_char_def)

lemma sextets:
  fixes a b c :: nat
  assumes "a < 256" "b < 256" "c < 256"
  shows "a div 4 < 64" "(a mod 4) * 16 + b div 16 < 64" "(b mod 16) * 4 + c div 64 < 64"
    "c mod 64 < 64" "(a mod 4) * 16 < 64" "(b mod 16) * 4 < 64"
  using assms by auto

lemma quad: "(4 * (Suc (Suc (Suc n))) + 2) div 3 = 4 + (4 * n + 2) div (3::nat)"
  by presburger

lemma base64url_base64:
  "\<forall>b\<in>set bs. b < 256 \<Longrightarrow>
     length (base64url (base64 bs)) = (4 * length bs + 2) div 3 \<and>
     list_all base64url_char (base64url (base64 bs))"
proof (induction bs rule: base64.induct)
  case 1
  then show ?case by (simp add: base64url_Nil)
next
  case (2 a)
  then have a: "a < 256" by simp
  obtain c1 where c1: "base64url [base64_char (a div 4)] = [c1]" "base64url_char c1"
    using base64url_char_ok [OF sextets(1) [OF a a a]] by blast
  obtain c2 where c2: "base64url [base64_char ((a mod 4) * 16)] = [c2]" "base64url_char c2"
    using base64url_char_ok [OF sextets(5) [OF a a a]] by blast
  have "base64url (base64 [a]) = [c1, c2]"
    by (simp add: base64url_Cons c1 c2 base64url_pad)
  then show ?case using c1 c2 by simp
next
  case (3 a b)
  then have a: "a < 256" and b: "b < 256" by simp_all
  obtain c1 where c1: "base64url [base64_char (a div 4)] = [c1]" "base64url_char c1"
    using base64url_char_ok [OF sextets(1) [OF a a a]] by blast
  obtain c2 where c2: "base64url [base64_char ((a mod 4) * 16 + b div 16)] = [c2]"
      "base64url_char c2"
    using base64url_char_ok [OF sextets(2) [OF a b b]] by blast
  obtain c3 where c3: "base64url [base64_char ((b mod 16) * 4)] = [c3]" "base64url_char c3"
    using base64url_char_ok [OF sextets(6) [OF a b b]] by blast
  have "base64url (base64 [a, b]) = [c1, c2, c3]"
    by (simp add: base64url_Cons c1 c2 c3 base64url_pad)
  then show ?case using c1 c2 c3 by simp
next
  case (4 a b c rest)
  then have a: "a < 256" and b: "b < 256" and c: "c < 256"
    and rest: "\<forall>x\<in>set rest. x < 256" by simp_all
  obtain c1 where c1: "base64url [base64_char (a div 4)] = [c1]" "base64url_char c1"
    using base64url_char_ok [OF sextets(1) [OF a a a]] by blast
  obtain c2 where c2: "base64url [base64_char ((a mod 4) * 16 + b div 16)] = [c2]"
      "base64url_char c2"
    using base64url_char_ok [OF sextets(2) [OF a b b]] by blast
  obtain c3 where c3: "base64url [base64_char ((b mod 16) * 4 + c div 64)] = [c3]"
      "base64url_char c3"
    using base64url_char_ok [OF sextets(3) [OF a b c]] by blast
  obtain c4 where c4: "base64url [base64_char (c mod 64)] = [c4]" "base64url_char c4"
    using base64url_char_ok [OF sextets(4) [OF a b c]] by blast
  have eq: "base64url (base64 (a # b # c # rest)) = [c1, c2, c3, c4] @ base64url (base64 rest)"
    by (simp only: base64.simps base64url_append)
      (simp add: base64url_Cons c1 c2 c3 c4)
  have n: "(4 * length (a # b # c # rest) + 2) div 3 = 4 + (4 * length rest + 2) div 3"
    by (simp only: list.size quad add_Suc_right add_0_right One_nat_def)
  have ih: "length (base64url (base64 rest)) = (4 * length rest + 2) div 3"
    and ih': "list_all base64url_char (base64url (base64 rest))"
    using "4.IH" [OF rest] by blast+
  have "length (base64url (base64 (a # b # c # rest))) = 4 + (4 * length rest + 2) div 3"
    unfolding eq using ih by simp
  moreover have "list_all base64url_char (base64url (base64 (a # b # c # rest)))"
    unfolding eq using ih' c1 c2 c3 c4 by simp
  ultimately show ?case unfolding n by blast
qed

lemma base64url_char_plain:
  "base64url_char c \<Longrightarrow> c \<noteq> CHR ''+'' \<and> c \<noteq> CHR ''/'' \<and> c \<noteq> CHR ''=''"
  by (auto simp: base64url_char_def)

text \<open>
  C5. \<open>generateCodeChallenge\<close> is a function of the verifier (the same verifier gives
  the same challenge), and whenever the digest has the 32 bytes of SHA-256, the challenge
  has exactly 43 characters, all of them letters, digits, \<open>-\<close> or \<open>_\<close>: it contains
  no \<open>+\<close>, no \<open>/\<close> and no \<open>=\<close>.
\<close>

theorem generateCodeChallenge_shape:
  assumes "length (digest (TextEncoder_encode verifier)) = 32"
  shows "length (generateCodeChallenge digest verifier) = 43 \<and>
         list_all base64url_char (generateCodeChallenge digest verifier) \<and>
         CHR ''+'' \<notin> set (generateCodeChallenge digest verifier) \<and>
         CHR ''/'' \<notin> set (generateCodeChallenge digest verifier) \<and>
         CHR ''='' \<notin> set (generateCodeChallenge digest verifier) \<and>
         (v = verifier \<longrightarrow>
            generateCodeChallenge digest v = generateCodeChallenge digest verifier)"
proof -
  let ?bs = "map unat (digest (TextEncoder_encode verifier))"
  have bound: "\<forall>b\<in>set ?bs. b < 256"
  proof
    fix b assume "b \<in> set ?bs"
    then obtain w :: byte where "b = unat w" by auto
    then show "b < 256" using unsigned_less [of w, where ?'a = nat] by simp
  qed
  have eq: "generateCodeChallenge digest verifier = base64url (base64 ?bs)"
    by (simp add: generateCodeChallenge_def btoa_bytes_def Let_def)
  have len: "length (base64url (base64 ?bs)) = 43"
    using base64url_base64 [OF bound] assms by simp
  have chars: "list_all base64url_char (base64url (base64 ?bs))"
    using base64url_base64 [OF bound] by simp
  have no: "c \<notin> set (base64url (base64 ?bs))"
    if "c = CHR ''+'' \<or> c = CHR ''/'' \<or> c = CHR ''=''" for c
  proof
    assume "c \<in> set (base64url (base64 ?bs))"
    then have "base64url_char c" using chars by (simp add: list_all_iff)
    then show False using that base64url_char_plain [of c] by blast
  qed
  show ?thesis
    using len chars no [of "CHR ''+''"] no [of "CHR ''/''"] no [of "CHR ''=''"]
    by (intro conjI impI) (simp_all add: eq)
qed

theorem generateCodeChallenge_shape_witness:
  "length (constant_digest (TextEncoder_encode rfc7636_verifier)) = 32 \<and>
   generateCodeChallenge constant_digest rfc7636_verifier =
     ''__________________________________________8'' \<and>
   length (generateCodeChallenge constant_digest rfc7636_verifier) = 43 \<and>
   CHR ''+'' \<notin> set (generateCodeChallenge constant_digest rfc7636_verifier) \<and>
   CHR ''/'' \<notin> set (generateCodeChallenge constant_digest rfc7636_verifier) \<and>
   CHR ''='' \<notin> set (generateCodeChallenge constant_digest rfc7636_verifier)"
proof -
  have h: "length (constant_digest (TextEncoder_encode rfc7636_verifier)) = 32"
    by (simp add: constant_digest_def)
  have v: "generateCodeChallenge constant_digest rfc7636_verifier =
     ''__________________________________________8''"
    by code_simp
  show ?thesis
    using generateCodeChallenge_shape [of constant_digest rfc7636_verifier rfc7636_verifier]
      h v by blast
qed

section \<open>Properties of the callback\<close>

lemma stored_values_nonempty:
  "storePKCEVerifier v st = (Inr (), st') \<Longrightarrow> pkce_verifier st' = Some v \<and> v \<noteq> []"
  "storeOAuthState s st = (Inr (), st') \<Longrightarrow> oauth_state st' = Some s \<and> s \<noteq> []"
  by (auto simp: storePKCEVerifier_def storeOAuthState_def split: if_splits)

lemma retrieveOAuthState_simps:
  "fst (retrieveOAuthState st) = oauth_state st"
  "\<not> truthy (oauth_state (snd (retrieveOAuthState st)))"
  "oauth_state st \<noteq> Some [] \<Longrightarrow> oauth_state (snd (retrieveOAuthState st)) = None"
  "pkce_verifier (snd (retrieveOAuthState st)) = pkce_verifier st"
  "auth_session (snd (retrieveOAuthState st)) = auth_session st"
  by (cases "oauth_state st"; simp add: retrieveOAuthState_def Let_def)+

lemma retrievePKCEVerifier_simps:
  "fst (retrievePKCEVerifier st) = pkce_verifier st"
  "\<not> truthy (pkce_verifier (snd (retrievePKCEVerifier st)))"
  "pkce_verifier st \<noteq> Some [] \<Longrightarrow> pkce_verifier (snd (retrievePKCEVerifier st)) = None"
  "oauth_state (snd (retrievePKCEVerifier st)) = oauth_state st"
  "auth_session (snd (retrievePKCEVerifier st)) = auth_session st"
  by (cases "pkce_verifier st"; simp add: retrievePKCEVerifier_def Let_def)+

lemma storeSession_frame:
  "pkce_verifier (snd (storeSession now s st)) = pkce_verifier st"
  "oauth_state (snd (storeSession now s st)) = oauth_state st"
  by (simp_all add: storeSession_def Let_def)

lemma try_mismatch:
  assumes "oauth_state st \<noteq> Some state \<or> state = []"
  shows "handleCallback_try svc code state env st =
     (Inl (Error ''Invalid state parameter - possible CSRF attack''),
      snd (retrieveOAuthState st), [])"
proof -
  obtain s st1 where r: "retrieveOAuthState st = (s, st1)" by (cases "retrieveOAuthState st")
  have s: "s = oauth_state st" using retrieveOAuthState_simps(1) [of st] r by simp
  have "\<not> truthy s \<or> s \<noteq> Some state" using assms s by (cases s) auto
  then show ?thesis by (simp add: handleCallback_try_def r)
qed

lemma try_state:
  "\<not> truthy (oauth_state (fst (snd (handleCallback_try svc code state env st))))"
  "oauth_state st \<noteq> Some [] \<Longrightarrow>
     oauth_state (fst (snd (handleCallback_try svc code state env st))) = None"
  using retrieveOAuthState_simps(2,3) [of st]
    retrievePKCEVerifier_simps(4) [of "snd (retrieveOAuthState st)"]
  by (auto simp: handleCallback_try_def storeSession_frame Let_def split_beta
      split: prod.splits sum.splits if_splits)

lemma retrievePKCEVerifier_cases:
  "pkce_verifier (snd (retrievePKCEVerifier st)) = pkce_verifier st \<or>
   pkce_verifier (snd (retrievePKCEVerifier st)) = None"
  by (simp add: retrievePKCEVerifier_def Let_def)

lemma try_verifier:
  "pkce_verifier (fst (snd (handleCallback_try svc code state env st))) = pkce_verifier st \<or>
   pkce_verifier (fst (snd (handleCallback_try svc code state env st))) = None"
proof -
  let ?st1 = "snd (retrieveOAuthState st)"
  let ?st2 = "snd (retrievePKCEVerifier ?st1)"
  have a: "pkce_verifier ?st1 = pkce_verifier st"
    by (rule retrieveOAuthState_simps(4))
  have b: "pkce_verifier ?st2 = pkce_verifier st \<or> pkce_verifier ?st2 = None"
    using retrievePKCEVerifier_cases [of ?st1] a by simp
  have "fst (snd (handleCallback_try svc code state env st)) = ?st1 \<or>
        fst (snd (handleCallback_try svc code state env st)) = ?st2 \<or>
        (\<exists>s. fst (snd (handleCallback_try svc code state env st)) =
               snd (storeSession (now_stored env) s ?st2))"
    by (simp add: handleCallback_try_def Let_def split_beta split: sum.splits) blast
  then show ?thesis using a b by (auto simp: storeSession_frame)
qed

lemma try_success_verifier:
  assumes "fst (handleCallback_try svc code state env st) = Inr r"
  shows "\<not> truthy (pkce_verifier (fst (snd (handleCallback_try svc code state env st))))"
  using assms retrievePKCEVerifier_simps(2) [of "snd (retrieveOAuthState st)"]
  by (auto simp: handleCallback_try_def storeSession_frame Let_def split_beta
      split: prod.splits sum.splits if_splits)

lemma handleCallback_mismatch:
  assumes "initialized svc" and "oauth_state st \<noteq> Some state \<or> state = []"
  shows "fst (handleCallback svc code state env st) = Inl (Error CSRF_message)"
    and "snd (snd (handleCallback svc code state env st)) = []"
  using assms by (simp_all add: handleCallback_def try_mismatch CSRF_message_def)

lemma handleCallback_purged:
  assumes "initialized svc"
  shows "\<not> truthy (pkce_verifier (fst (snd (handleCallback svc code state env st))))"
    and "\<not> truthy (oauth_state (fst (snd (handleCallback svc code state env st))))"
proof -
  let ?t = "handleCallback_try svc code state env st"
  obtain r st1 calls where t: "?t = (r, st1, calls)" by (cases ?t) auto
  show "\<not> truthy (pkce_verifier (fst (snd (handleCallback svc code state env st))))"
  proof (cases r)
    case (Inl e)
    then show ?thesis
      using assms t retrievePKCEVerifier_simps(2) [of st1]
      by (simp add: handleCallback_def retrieveOAuthState_simps)
  next
    case (Inr x)
    then show ?thesis
      using assms t try_success_verifier [of svc code state env st x]
      by (simp add: handleCallback_def)
  qed
  show "\<not> truthy (oauth_state (fst (snd (handleCallback svc code state env st))))"
  proof (cases r)
    case (Inl e)
    then show ?thesis
      using assms t by (simp add: handleCallback_def retrieveOAuthState_simps)
  next
    case (Inr x)
    then show ?thesis
      using assms t try_state(1) [of svc code state env st]
      by (simp add: handleCallback_def)
  qed
qed

lemma not_truthy_None: "\<not> truthy v \<Longrightarrow> v \<noteq> Some [] \<Longrightarrow> v = None"
  by (cases v) auto

lemma handleCallback_removed:
  assumes "initialized svc"
  shows "pkce_verifier st \<noteq> Some [] \<Longrightarrow>
           pkce_verifier (fst (snd (handleCallback svc code state env st))) = None"
    and "oauth_state st \<noteq> Some [] \<Longrightarrow>
           oauth_state (fst (snd (handleCallback svc code state env st))) = None"
proof -
  let ?t = "handleCallback_try svc code state env st"
  obtain r st1 calls where t: "?t = (r, st1, calls)" by (cases ?t) auto
  have v1: "pkce_verifier st1 = pkce_verifier st \<or> pkce_verifier st1 = None"
    using try_verifier [of svc code state env st] t by simp
  have s1: "oauth_state st \<noteq> Some [] \<Longrightarrow> oauth_state st1 = None"
    using try_state(2) [of st svc code state env] t by simp
  {
    assume wf: "pkce_verifier st \<noteq> Some []"
    then have "pkce_verifier st1 \<noteq> Some []" using v1 by auto
    then have a: "pkce_verifier (snd (retrievePKCEVerifier st1)) = None"
      by (rule retrievePKCEVerifier_simps(3))
    have b: "pkce_verifier st1 = None" if "r = Inr x" for x
      using that try_success_verifier [of svc code state env st x] t
        \<open>pkce_verifier st1 \<noteq> Some []\<close> by (simp add: not_truthy_None)
    show "pkce_verifier (fst (snd (handleCallback svc code state env st))) = None"
      using assms t a b by (cases r) (simp_all add: handleCallback_def retrieveOAuthState_simps)
  }
  {
    assume wf: "oauth_state st \<noteq> Some []"
    have "oauth_state st1 = None" using s1 wf by simp
    then show "oauth_state (fst (snd (handleCallback svc code state env st))) = None"
      using assms t
      by (cases r) (simp_all add: handleCallback_def retrieveOAuthState_simps
          retrievePKCEVerifier_simps)
  }
qed

text \<open>
  C1 (as amended). On an initialized service, for every supplied state:
  when the supplied state differs from the stored one, or none is stored,
  \<open>handleCallback\<close> rejects with the CSRF error and issues no network call; after the
  call, in every outcome, neither key holds a usable value, and a verifier and a state as
  \<open>storePKCEVerifier\<close> and \<open>storeOAuthState\<close> write them (non-empty) are removed; a
  second \<open>handleCallback\<close> on the resulting store, with any arguments, rejects with the
  CSRF error and issues no network call.
\<close>

theorem handleCallback_csrf_purge:
  assumes "initialized svc"
  shows "(oauth_state st \<noteq> Some state \<longrightarrow>
            fst (handleCallback svc code state env st) = Inl (Error CSRF_message) \<and>
            snd (snd (handleCallback svc code state env st)) = []) \<and>
         \<not> truthy (pkce_verifier (fst (snd (handleCallback svc code state env st)))) \<and>
         \<not> truthy (oauth_state (fst (snd (handleCallback svc code state env st)))) \<and>
         (pkce_verifier st \<noteq> Some [] \<longrightarrow>
            pkce_verifier (fst (snd (handleCallback svc code state env st))) = None) \<and>
         (oauth_state st \<noteq> Some [] \<longrightarrow>
            oauth_state (fst (snd (handleCallback svc code state env st))) = None) \<and>
         fst (handleCallback svc code2 state2 env2
               (fst (snd (handleCallback svc code state env st)))) = Inl (Error CSRF_message) \<and>
         snd (snd (handleCallback svc code2 state2 env2
               (fst (snd (handleCallback svc code state env st))))) = []"
proof -
  let ?st' = "fst (snd (handleCallback svc code state env st))"
  have p: "\<not> truthy (pkce_verifier ?st')" "\<not> truthy (oauth_state ?st')"
    using handleCallback_purged [OF assms] by blast+
  have "oauth_state ?st' \<noteq> Some state2 \<or> state2 = []"
    using p(2) by (cases "oauth_state ?st'") auto
  then have again: "fst (handleCallback svc code2 state2 env2 ?st') = Inl (Error CSRF_message)"
      "snd (snd (handleCallback svc code2 state2 env2 ?st')) = []"
    using handleCallback_mismatch [OF assms] by blast+
  show ?thesis
    using p again handleCallback_mismatch [OF assms, of st state code env]
      handleCallback_removed [OF assms, of st code state env]
    by blast
qed

theorem handleCallback_csrf_purge_witness:
  "initialized ready_service \<and>
   fst (handleCallback ready_service ''xyz'' ''forged'' callback_ok pending_store) =
     Inl (Error CSRF_message) \<and>
   snd (snd (handleCallback ready_service ''xyz'' ''forged'' callback_ok pending_store)) = [] \<and>
   pkce_verifier (fst (snd (handleCallback ready_service ''xyz'' ''forged'' callback_ok
     pending_store))) = None \<and>
   oauth_state (fst (snd (handleCallback ready_service ''xyz'' ''forged'' callback_ok
     pending_store))) = None \<and>
   pkce_verifier (fst (snd (handleCallback ready_service ''xyz'' ''Zm9vYmFyc3RhdGUxMjM0NQ''
     callback_ok pending_store))) = None \<and>
   oauth_state (fst (snd (handleCallback ready_service ''xyz'' ''Zm9vYmFyc3RhdGUxMjM0NQ''
     callback_ok pending_store))) = None \<and>
   fst (handleCallback ready_service ''xyz'' ''Zm9vYmFyc3RhdGUxMjM0NQ'' callback_ok
     (fst (snd (handleCallback ready_service ''xyz'' ''Zm9vYmFyc3RhdGUxMjM0NQ'' callback_ok
        pending_store)))) = Inl (Error CSRF_message)"
proof -
  have i: "initialized ready_service"
    by (simp add: ready_service_def)
  have s: "oauth_state pending_store \<noteq> Some ''forged'' \<and>
      oauth_state pending_store \<noteq> Some [] \<and> pkce_verifier pending_store \<noteq> Some []"
    by (simp add: pending_store_def empty_storage_def)
  show ?thesis
    using i s
      handleCallback_csrf_purge [where svc = ready_service and st = pending_store
        and state = "''forged''" and code = "''xyz''" and env = callback_ok
        and ?code2.0 = "''xyz''" and ?state2.0 = "''forged''" and ?env2.0 = callback_ok]
      handleCallback_csrf_purge [where svc = ready_service and st = pending_store
        and state = "''Zm9vYmFyc3RhdGUxMjM0NQ''" and code = "''xyz''" and env = callback_ok
        and ?code2.0 = "''xyz''" and ?state2.0 = "''Zm9vYmFyc3RhdGUxMjM0NQ''"
        and ?env2.0 = callback_ok]
    by simp
qed

text \<open>
  C1 as stated fails on a service that is not initialized: \<open>ensureInitialized\<close> throws
  before the \<open>try\<close> block, so a differing state is answered with the initialization
  error, not the CSRF error, and the stored verifier and state stay in the store.
\<close>

theorem handleCallback_uninitialized_counterexample:
  "oauth_state pending_store \<noteq> Some ''forged'' \<and>
   fst (handleCallback new_OAuth2Service ''xyz'' ''forged'' callback_ok pending_store) =
     Inl (Error ''OAuth2 service not initialized. Call initialize() first.'') \<and>
   fst (handleCallback new_OAuth2Service ''xyz'' ''forged'' callback_ok pending_store) \<noteq>
     Inl (Error CSRF_message) \<and>
   pkce_verifier (fst (snd (handleCallback new_OAuth2Service ''xyz'' ''forged'' callback_ok
     pending_store))) = Some ''dBjftJeZ4CVP-mB92K27uhbUJU1p1r_wW1gFWFOEjXk'' \<and>
   oauth_state (fst (snd (handleCallback new_OAuth2Service ''xyz'' ''forged'' callback_ok
     pending_store))) = Some ''Zm9vYmFyc3RhdGUxMjM0NQ''"
  by (simp add: handleCallback_def new_OAuth2Service_def pending_store_def empty_storage_def
      CSRF_message_def)

text \<open>
  In general: on a service that is not initialized every callback is answered with the
  initialization error, the store is left as it is and no network call is made.
\<close>

lemma uninitialized_callback_rejected:
  assumes "\<not> initialized svc"
  shows "handleCallback svc code state env st =
           (Inl (Error ''OAuth2 service not initialized. Call initialize() first.''), st, [])"
  using assms by (simp add: handleCallback_def)

lemma exchange_success:
  assumes "exchangeCodeForTokens svc code v reply = (Inr t, calls)"
  shows "reply = Body t \<and> truthy (access_token t) \<and> endpoints svc \<noteq> None"
  using assms
  by (auto simp: exchangeCodeForTokens_def Let_def split: option.splits http.splits if_splits)

lemma truthy_js_string: "truthy v \<Longrightarrow> js_string v \<noteq> []"
  by (cases v) (auto simp: js_string_def)

lemma try_after_exchange:
  assumes "oauth_state st = Some state" and "state \<noteq> []" and "truthy (pkce_verifier st)"
    and "exchangeCodeForTokens svc code (js_string (pkce_verifier st)) (token_reply env)
           = (Inr t, calls)"
  shows "handleCallback_try svc code state env st =
     (Inr (fst (fetchUserInfo svc (js_string (access_token t)) (userinfo_reply env)),
           session_of svc env t
             (fst (fetchUserInfo svc (js_string (access_token t)) (userinfo_reply env)))),
      st \<lparr> oauth_state := None, pkce_verifier := None,
           auth_session := Some (Json (stored_copy env (session_of svc env t
             (fst (fetchUserInfo svc (js_string (access_token t)) (userinfo_reply env)))))) \<rparr>,
      calls @ snd (fetchUserInfo svc (js_string (access_token t)) (userinfo_reply env)))"
proof -
  have tok: "js_string (access_token t) \<noteq> []"
    using exchange_success [OF assms(4)] truthy_js_string by blast
  have r1: "retrieveOAuthState st = (Some state, st \<lparr> oauth_state := None \<rparr>)"
    using assms(1,2) by (simp add: retrieveOAuthState_def Let_def)
  have r2: "retrievePKCEVerifier (st \<lparr> oauth_state := None \<rparr>) =
      (pkce_verifier st, st \<lparr> oauth_state := None, pkce_verifier := None \<rparr>)"
    using assms(3) by (simp add: retrievePKCEVerifier_def Let_def)
  show ?thesis
    using assms(2,3,4) tok
    by (simp add: handleCallback_try_def r1 r2 Let_def split_beta storeSession_def
        session_of_def stored_copy_def)
qed

lemma try_success:
  assumes "handleCallback_try svc code state env st = (Inr (u, s), st', calls)"
  shows "\<exists>t calls0. oauth_state st = Some state \<and> state \<noteq> [] \<and> truthy (pkce_verifier st) \<and>
     exchangeCodeForTokens svc code (js_string (pkce_verifier st)) (token_reply env)
       = (Inr t, calls0)"
proof -
  have s: "oauth_state st = Some state \<and> state \<noteq> []"
  proof (rule ccontr)
    assume "\<not> (oauth_state st = Some state \<and> state \<noteq> [])"
    then have "oauth_state st \<noteq> Some state \<or> state = []" by blast
    then have "fst (handleCallback_try svc code state env st) =
        Inl (Error ''Invalid state parameter - possible CSRF attack'')"
      by (cases "retrieveOAuthState st")
        (auto simp: handleCallback_try_def retrieveOAuthState_def Let_def split: if_splits)
    then show False using assms by simp
  qed
  then have r1: "retrieveOAuthState st = (Some state, st \<lparr> oauth_state := None \<rparr>)"
    by (simp add: retrieveOAuthState_def Let_def)
  have v: "truthy (pkce_verifier st)"
  proof (rule ccontr)
    assume n: "\<not> truthy (pkce_verifier st)"
    then have "retrievePKCEVerifier (st \<lparr> oauth_state := None \<rparr>) =
        (pkce_verifier st, st \<lparr> oauth_state := None \<rparr>)"
      by (simp add: retrievePKCEVerifier_def Let_def)
    then have "fst (handleCallback_try svc code state env st) =
        Inl (Error ''PKCE code verifier not found'')"
      using s n by (simp add: handleCallback_try_def r1)
    then show False using assms by simp
  qed
  then have r2: "retrievePKCEVerifier (st \<lparr> oauth_state := None \<rparr>) =
      (pkce_verifier st, st \<lparr> oauth_state := None, pkce_verifier := None \<rparr>)"
    by (simp add: retrievePKCEVerifier_def Let_def)
  obtain r calls0 where
    ex: "exchangeCodeForTokens svc code (js_string (pkce_verifier st)) (token_reply env)
           = (r, calls0)"
    by (cases "exchangeCodeForTokens svc code (js_string (pkce_verifier st)) (token_reply env)")
  have "\<exists>t. r = Inr t"
  proof (cases r)
    case (Inl e)
    then have "fst (handleCallback_try svc code state env st) = Inl e"
      using s v ex by (simp add: handleCallback_try_def r1 r2)
    then show ?thesis using assms by simp
  next
    case (Inr t)
    then show ?thesis by blast
  qed
  then show ?thesis using s v ex by blast
qed

lemma handleCallback_success:
  assumes "handleCallback svc code state env st = (Inr (u, s), st', calls)"
  shows "\<exists>t calls0.
     initialized svc \<and> oauth_state st = Some state \<and> state \<noteq> [] \<and> truthy (pkce_verifier st) \<and>
     exchangeCodeForTokens svc code (js_string (pkce_verifier st)) (token_reply env)
       = (Inr t, calls0) \<and>
     token_reply env = Body t \<and>
     u = fst (fetchUserInfo svc (js_string (access_token t)) (userinfo_reply env)) \<and>
     s = session_of svc env t u \<and>
     st' = st \<lparr> oauth_state := None, pkce_verifier := None,
                auth_session := Some (Json (stored_copy env s)) \<rparr>"
proof -
  have i: "initialized svc"
    using assms by (auto simp: handleCallback_def split: if_splits)
  have t: "handleCallback_try svc code state env st = (Inr (u, s), st', calls)"
    using assms i by (auto simp: handleCallback_def split: prod.splits sum.splits)
  obtain t calls0 where h: "oauth_state st = Some state" "state \<noteq> []"
      "truthy (pkce_verifier st)"
      "exchangeCodeForTokens svc code (js_string (pkce_verifier st)) (token_reply env)
         = (Inr t, calls0)"
    using try_success [OF t] by blast
  have "token_reply env = Body t" using exchange_success [OF h(4)] by simp
  then show ?thesis
    using i h t try_after_exchange [OF h] by auto
qed

lemma handleCallback_after_exchange:
  assumes "initialized svc" and "oauth_state st = Some state" and "state \<noteq> []"
    and "truthy (pkce_verifier st)"
    and "exchangeCodeForTokens svc code (js_string (pkce_verifier st)) (token_reply env)
           = (Inr t, calls)"
  shows "handleCallback svc code state env st =
     (Inr (fst (fetchUserInfo svc (js_string (access_token t)) (userinfo_reply env)),
           session_of svc env t
             (fst (fetchUserInfo svc (js_string (access_token t)) (userinfo_reply env)))),
      st \<lparr> oauth_state := None, pkce_verifier := None,
           auth_session := Some (Json (stored_copy env (session_of svc env t
             (fst (fetchUserInfo svc (js_string (access_token t)) (userinfo_reply env)))))) \<rparr>,
      calls @ snd (fetchUserInfo svc (js_string (access_token t)) (userinfo_reply env)))"
  using assms(1) try_after_exchange [OF assms(2-5)] by (simp add: handleCallback_def)

lemma stored_session_valid:
  assumes "auth_session st = Some (Json s)" and "accessToken s \<noteq> []" and "expiresAt s \<noteq> 0"
  shows "isSessionValid now st =
           (if now \<ge> expiresAt s then (False, clearSession st) else (True, st))"
  using assms by (simp add: isSessionValid_def getSession_def Let_def)

text \<open>
  C2. A successful \<open>handleCallback\<close> whose token response carries
  \<open>expires_in = 3600\<close>, with the clock at \<open>T\<close> (not before the epoch) when the expiry
  is computed, returns and persists a session with \<open>expiresAt = T + 3600000\<close>;
  \<open>isSessionValid\<close> on the resulting store is true at \<open>T + 3599999\<close> and leaves the
  store as it is, and is false at \<open>T + 3600001\<close> and removes the stored session; at
  every instant it is true exactly when the instant is before \<open>expiresAt\<close>.
\<close>

theorem session_expiry_3600:
  assumes "handleCallback svc code state env st = (Inr (u, s), st', calls)"
    and "token_reply env = Body t" and "expires_in t = Some 3600"
    and "0 \<le> now_expiry env"
  shows "expiresAt s = now_expiry env + 3600000 \<and>
         (\<exists>s'. auth_session st' = Some (Json s') \<and> expiresAt s' = now_expiry env + 3600000) \<and>
         isSessionValid (now_expiry env + 3599999) st' = (True, st') \<and>
         isSessionValid (now_expiry env + 3600001) st' = (False, clearSession st') \<and>
         auth_session (clearSession st') = None \<and>
         (\<forall>now. fst (isSessionValid now st') \<longleftrightarrow> now < expiresAt s)"
proof -
  obtain t' calls0 where h:
      "exchangeCodeForTokens svc code (js_string (pkce_verifier st)) (token_reply env)
         = (Inr t', calls0)"
      "token_reply env = Body t'"
      "s = session_of svc env t' u"
      "st' = st \<lparr> oauth_state := None, pkce_verifier := None,
                 auth_session := Some (Json (stored_copy env s)) \<rparr>"
    using handleCallback_success [OF assms(1)] by blast
  have tt: "t' = t" using h(2) assms(2) by simp
  have e: "expiresAt s = now_expiry env + 3600000"
    using h(3) tt assms(3) by (simp add: session_of_def expiresIn_of_def)
  have tok: "accessToken s \<noteq> []"
    using exchange_success [OF h(1)] h(3) truthy_js_string by (simp add: session_of_def)
  have stored: "auth_session st' = Some (Json (stored_copy env s))"
    using h(4) by simp
  have se: "expiresAt (stored_copy env s) = now_expiry env + 3600000"
      "accessToken (stored_copy env s) \<noteq> []" "expiresAt (stored_copy env s) \<noteq> 0"
    using e tok assms(4) by (simp_all add: stored_copy_def)
  have v: "isSessionValid now st' =
      (if now \<ge> now_expiry env + 3600000 then (False, clearSession st') else (True, st'))" for now
    using stored_session_valid [OF stored se(2,3)] se(1) by simp
  show ?thesis
    using e stored se(1) v by (auto simp: clearSession_def)
qed


lemmas callback_defs =
  handleCallback_def handleCallback_try_def retrieveOAuthState_def retrievePKCEVerifier_def
  exchangeCodeForTokens_def fetchUserInfo_def storeSession_def expiresIn_of_def
  ready_service_def pending_store_def empty_storage_def callback_ok_def token_3600_def
  idp_config_def idp_authority_def extract_endpoints_def if_truthy_def or_else_def
  or_empty_def js_string_def null_string_def session_3600_def logged_in_store_def
  token_call_def userinfo_call_def octo_user_def Let_def

lemma callback_ok_run:
  "handleCallback ready_service ''xyz'' ''Zm9vYmFyc3RhdGUxMjM0NQ'' callback_ok pending_store =
     (Inr (octo_user, session_3600), logged_in_store, [token_call, userinfo_call])"
  by (simp add: callback_defs)

lemma callback_no_expiry_run:
  "handleCallback ready_service ''xyz'' ''Zm9vYmFyc3RhdGUxMjM0NQ'' callback_no_expiry
     pending_store =
     (Inr (octo_user, session_3600), logged_in_store, [token_call, userinfo_call])"
  by (simp add: callback_defs callback_no_expiry_def)

lemma callback_zero_run:
  "handleCallback ready_service ''xyz'' ''Zm9vYmFyc3RhdGUxMjM0NQ'' callback_zero pending_store =
     (Inr (octo_user, session_3600), logged_in_store, [token_call, userinfo_call])"
  by (simp add: callback_defs callback_zero_def)

theorem session_expiry_3600_witness:
  "handleCallback ready_service ''xyz'' ''Zm9vYmFyc3RhdGUxMjM0NQ'' callback_ok pending_store =
     (Inr (octo_user, session_3600), logged_in_store, [token_call, userinfo_call]) \<and>
   expires_in token_3600 = Some 3600 \<and>
   expiresAt session_3600 = 1700000000000 + 3600000 \<and>
   isSessionValid (1700000000000 + 3599999) logged_in_store = (True, logged_in_store) \<and>
   isSessionValid (1700000000000 + 3600001) logged_in_store =
     (False, clearSession logged_in_store) \<and>
   auth_session (clearSession logged_in_store) = None"
proof -
  have h: "token_reply callback_ok = Body token_3600" "expires_in token_3600 = Some 3600"
      "0 \<le> now_expiry callback_ok" "now_expiry callback_ok = 1700000000000"
    by (simp_all add: callback_ok_def token_3600_def)
  show ?thesis
    using session_expiry_3600 [OF callback_ok_run h(1,2,3)] callback_ok_run h(2,4) by simp
qed

text \<open>
  C3 (as amended). For every token response accepted by \<open>handleCallback\<close>, the returned
  and the stored session have \<open>expiresAt = now + (expires_in || 3600) * 1000\<close>: the
  3600-second default applies when \<open>expires_in\<close> is absent and when it is \<open>0\<close>; any
  other value is taken as it is.
\<close>

theorem expiresAt_from_expires_in:
  assumes "handleCallback svc code state env st = (Inr (u, s), st', calls)"
    and "token_reply env = Body t"
  shows "expiresAt s =
           now_expiry env
           + (case expires_in t of None \<Rightarrow> 3600 | Some n \<Rightarrow> if n = 0 then 3600 else n) * 1000 \<and>
         (\<exists>s'. auth_session st' = Some (Json s') \<and> expiresAt s' = expiresAt s)"
proof -
  obtain t' where h: "token_reply env = Body t'" "s = session_of svc env t' u"
      "st' = st \<lparr> oauth_state := None, pkce_verifier := None,
                 auth_session := Some (Json (stored_copy env s)) \<rparr>"
    using handleCallback_success [OF assms(1)] by blast
  have "t' = t" using h(1) assms(2) by simp
  then have "expiresAt s = now_expiry env
      + (case expires_in t of None \<Rightarrow> 3600 | Some n \<Rightarrow> if n = 0 then 3600 else n) * 1000"
    using h(2) by (simp add: session_of_def expiresIn_of_def)
  moreover have "auth_session st' = Some (Json (stored_copy env s))"
    using h(3) by simp
  moreover have "expiresAt (stored_copy env s) = expiresAt s"
    by (simp add: stored_copy_def)
  ultimately show ?thesis by blast
qed

theorem expiresAt_from_expires_in_witness:
  "token_reply callback_no_expiry = Body (token_3600 \<lparr> expires_in := None \<rparr>) \<and>
   handleCallback ready_service ''xyz'' ''Zm9vYmFyc3RhdGUxMjM0NQ'' callback_no_expiry
     pending_store =
     (Inr (octo_user, session_3600), logged_in_store, [token_call, userinfo_call]) \<and>
   expiresAt session_3600 = now_expiry callback_no_expiry + 3600 * 1000 \<and>
   (\<exists>s'. auth_session logged_in_store = Some (Json s') \<and> expiresAt s' = expiresAt session_3600)"
proof -
  have h: "token_reply callback_no_expiry = Body (token_3600 \<lparr> expires_in := None \<rparr>)"
    by (simp add: callback_no_expiry_def)
  note r = expiresAt_from_expires_in [OF callback_no_expiry_run h]
  have a: "expiresAt session_3600 = now_expiry callback_no_expiry + 3600 * 1000"
    using r by simp
  have b: "\<exists>s'. auth_session logged_in_store = Some (Json s') \<and>
      expiresAt s' = expiresAt session_3600"
    using r by blast
  show ?thesis
    using h callback_no_expiry_run a b by blast
qed

text \<open>
  C3 as stated fails for \<open>expires_in = 0\<close>: the session expires an hour after the
  callback, not at the callback.
\<close>

theorem expires_in_zero_counterexample:
  "token_reply callback_zero = Body (token_3600 \<lparr> expires_in := Some 0 \<rparr>) \<and>
   expires_in (token_3600 \<lparr> expires_in := Some 0 \<rparr>) = Some 0 \<and>
   fst (handleCallback ready_service ''xyz'' ''Zm9vYmFyc3RhdGUxMjM0NQ'' callback_zero
     pending_store) = Inr (octo_user, session_3600) \<and>
   expiresAt session_3600 = now_expiry callback_zero + 3600 * 1000 \<and>
   expiresAt session_3600 \<noteq> now_expiry callback_zero + 0 * 1000"
  using callback_zero_run
  by (simp add: callback_zero_def callback_ok_def session_3600_def)


lemma fetchUserInfo_failure:
  assumes "(\<forall>eps. endpoints svc = Some eps \<longrightarrow> \<not> truthy (userinfoEndpoint eps)) \<or>
           (\<forall>u. reply \<noteq> Body u)"
  shows "\<exists>err. fst (fetchUserInfo svc tok reply) = minimal_user err"
proof (cases "endpoints svc")
  case None
  then show ?thesis by (auto simp: fetchUserInfo_def)
next
  case (Some eps)
  show ?thesis
  proof (cases "truthy (userinfoEndpoint eps)")
    case False
    then show ?thesis using Some by (auto simp: fetchUserInfo_def)
  next
    case True
    then have "\<forall>u. reply \<noteq> Body u" using assms Some by auto
    then show ?thesis using Some True
      by (cases reply) (auto simp: fetchUserInfo_def Let_def)
  qed
qed

text \<open>
  C9. When the token exchange inside \<open>handleCallback\<close> succeeds (the service is
  initialized, the supplied state is the stored one, a verifier is stored and the token
  endpoint returns an access token) and the userinfo step fails (no userinfo endpoint is
  configured, or the reply is anything but a JSON body), \<open>handleCallback\<close> succeeds:
  the user it returns is the minimal user, whose \<open>sub\<close> is \<open>unknown\<close>, and that user
  is the one in the returned and in the persisted session.
\<close>

theorem userinfo_failure_absorbed:
  assumes "initialized svc" and "oauth_state st = Some state" and "state \<noteq> []"
    and "truthy (pkce_verifier st)"
    and "exchangeCodeForTokens svc code (js_string (pkce_verifier st)) (token_reply env)
           = (Inr t, calls)"
    and "(\<forall>eps. endpoints svc = Some eps \<longrightarrow> \<not> truthy (userinfoEndpoint eps)) \<or>
         (\<forall>u. userinfo_reply env \<noteq> Body u)"
  shows "\<exists>u s st' calls'.
           handleCallback svc code state env st = (Inr (u, s), st', calls') \<and>
           sub u = Some ''unknown'' \<and> (\<exists>err. u = minimal_user err) \<and> user s = u \<and>
           (\<exists>s'. auth_session st' = Some (Json s') \<and> user s' = u)"
proof -
  let ?u = "fst (fetchUserInfo svc (js_string (access_token t)) (userinfo_reply env))"
  let ?s = "session_of svc env t ?u"
  obtain err where u: "?u = minimal_user err"
    using fetchUserInfo_failure [OF assms(6)] by blast
  have run: "handleCallback svc code state env st =
     (Inr (?u, ?s),
      st \<lparr> oauth_state := None, pkce_verifier := None,
           auth_session := Some (Json (stored_copy env ?s)) \<rparr>,
      calls @ snd (fetchUserInfo svc (js_string (access_token t)) (userinfo_reply env)))"
    by (rule handleCallback_after_exchange [OF assms(1-5)])
  have "sub ?u = Some ''unknown''" using u by (simp add: minimal_user_def)
  moreover have "user ?s = ?u" by (simp add: session_of_def)
  moreover have "user (stored_copy env ?s) = ?u" by (simp add: session_of_def stored_copy_def)
  ultimately show ?thesis using run u by auto
qed

theorem userinfo_failure_absorbed_witness:
  "(\<forall>u. userinfo_reply callback_userinfo_down \<noteq> Body u) \<and>
   handleCallback ready_service ''xyz'' ''Zm9vYmFyc3RhdGUxMjM0NQ'' callback_userinfo_down
     pending_store =
     (Inr (minimal_user (Some ''Userinfo fetch failed: 503 Service Unavailable''),
           session_3600 \<lparr> user :=
             minimal_user (Some ''Userinfo fetch failed: 503 Service Unavailable'') \<rparr>),
      empty_storage \<lparr> auth_session := Some (Json (session_3600 \<lparr> user :=
             minimal_user (Some ''Userinfo fetch failed: 503 Service Unavailable'') \<rparr>)) \<rparr>,
      [token_call, userinfo_call]) \<and>
   sub (minimal_user (Some ''Userinfo fetch failed: 503 Service Unavailable'')) = Some ''unknown'' \<and>
   (\<exists>u s st' calls'.
      handleCallback ready_service ''xyz'' ''Zm9vYmFyc3RhdGUxMjM0NQ'' callback_userinfo_down
        pending_store = (Inr (u, s), st', calls') \<and>
      sub u = Some ''unknown'' \<and> (\<exists>err. u = minimal_user err) \<and> user s = u \<and>
      (\<exists>s'. auth_session st' = Some (Json s') \<and> user s' = u))"
proof -
  have run: "handleCallback ready_service ''xyz'' ''Zm9vYmFyc3RhdGUxMjM0NQ''
      callback_userinfo_down pending_store =
     (Inr (minimal_user (Some ''Userinfo fetch failed: 503 Service Unavailable''),
           session_3600 \<lparr> user :=
             minimal_user (Some ''Userinfo fetch failed: 503 Service Unavailable'') \<rparr>),
      empty_storage \<lparr> auth_session := Some (Json (session_3600 \<lparr> user :=
             minimal_user (Some ''Userinfo fetch failed: 503 Service Unavailable'') \<rparr>)) \<rparr>,
      [token_call, userinfo_call])"
    by (simp add: callback_defs callback_userinfo_down_def decimal.simps digit_char_def)
  have h: "initialized ready_service"
      "oauth_state pending_store = Some ''Zm9vYmFyc3RhdGUxMjM0NQ''"
      "''Zm9vYmFyc3RhdGUxMjM0NQ'' \<noteq> []"
      "truthy (pkce_verifier pending_store)"
    by (simp_all add: ready_service_def pending_store_def empty_storage_def)
  have ex: "exchangeCodeForTokens ready_service ''xyz'' (js_string (pkce_verifier pending_store))
      (token_reply callback_userinfo_down) = (Inr token_3600, [token_call])"
    by (simp add: callback_defs callback_userinfo_down_def)
  have down: "(\<forall>eps. endpoints ready_service = Some eps \<longrightarrow> \<not> truthy (userinfoEndpoint eps)) \<or>
      (\<forall>u. userinfo_reply callback_userinfo_down \<noteq> Body u)"
    by (simp add: callback_userinfo_down_def)
  have down': "\<forall>u. userinfo_reply callback_userinfo_down \<noteq> Body u"
    by (simp add: callback_userinfo_down_def)
  have m: "sub (minimal_user (Some ''Userinfo fetch failed: 503 Service Unavailable'')) =
      Some ''unknown''"
    by (simp add: minimal_user_def)
  show ?thesis
    using userinfo_failure_absorbed [OF h ex down] run down' m by blast
qed

section \<open>Properties of OIDC discovery\<close>




lemma fetch_nonempty:
  assumes "fetchOIDCConfiguration a reply = (r, calls)"
  shows "a \<noteq> [] \<longleftrightarrow> calls \<noteq> []"
  using assms
  by (auto simp: fetchOIDCConfiguration_def Let_def split: if_splits http.splits sum.splits)







lemma discover_unencodable:
  assumes "a \<noteq> []" and "btoa a = None"
  shows "snd (discoverOIDCEndpoints a env st) =
           (st, snd (fetchOIDCConfiguration a (discovery_reply env)))"
  using assms
  by (auto simp: discoverOIDCEndpoints_def getCachedConfiguration_def
      setCachedConfiguration_def split: prod.splits sum.splits)






end
